theory Spec2Isabelle
  imports Main
begin

section \<open>Data model\<close>

text \<open>
  The record types below follow the fields that the provider module reads and writes. A
  field name is prefixed with an abbreviation of its record (\<open>s_number\<close> for the
  \<open>number\<close> of a parsed season, \<open>ss_number\<close> for the \<open>number\<close> of an
  \<open>ItemSeriesSeasonStream\<close>), since the source reuses \<open>number\<close>, \<open>title\<close>,
  \<open>episodes\<close>, \<open>season\<close>, \<open>episode\<close> and \<open>stream\<close> in several object types.
  JavaScript numbers that hold identifiers, season numbers and episode numbers are \<open>int\<close>;
  a value that may be \<open>undefined\<close> or \<open>null\<close> is an \<open>option\<close>.
\<close>

datatype error =
  Error string        \<comment> \<open>\<open>throw new Error(message)\<close>\<close>
  | TypeError         \<comment> \<open>reading a property of \<open>undefined\<close>\<close>
  | TransportError string  \<comment> \<open>a rejection of the HTTP client (network, timeout, abort)\<close>

record Quality =
  q_id :: int
  q_downloadUrl :: string

record Stream =
  st_id :: int
  st_qualities :: "Quality list"
  st_thumbnailsUrl :: string

record Translator =
  t_id :: int
  t_isCamrip :: bool
  t_isAds :: bool
  t_isDirector :: bool

text \<open>What \<open>parseStreamSeasons\<close> returns: seasons and episodes in the provider's order.\<close>

record Episode =
  e_number :: int
  e_title :: string

record Season =
  s_number :: int
  s_title :: string
  s_episodes :: "Episode list"

record ItemSeriesEpisodeStream =
  es_number :: int
  es_title :: string
  es_stream :: "Stream option"

record ItemSeriesSeasonStream =
  ss_number :: int
  ss_title :: string
  ss_episodes :: "ItemSeriesEpisodeStream list"

record ItemSeriesStream =
  sr_translatorId :: int
  sr_seasons :: "ItemSeriesSeasonStream list option"

record ItemMovieStream =
  ms_translatorId :: int
  ms_stream :: "Stream option"

text \<open>
  The fields of an item that the provider module reads; \<open>details\<close> stands for the rest of
  the metadata, which \<open>{ ...baseItem }\<close> copies.
\<close>

record BaseItem =
  b_id :: int
  b_favsId :: string
  b_translators :: "Translator list"
  b_ogType :: string
  b_details :: string

record ItemMovie =
  m_id :: int
  m_favsId :: string
  m_translators :: "Translator list"
  m_ogType :: string
  m_details :: string
  m_itemType :: string
  m_streams :: "ItemMovieStream list"

record ItemSeries =
  i_id :: int
  i_favsId :: string
  i_translators :: "Translator list"
  i_ogType :: string
  i_details :: string
  i_itemType :: string
  i_episodesInfo :: string
  i_streams :: "ItemSeriesStream list"

text \<open>\<open>streamFor\<close> of \<open>fetchSeriesEpisodesStream\<close>: both fields are numbers.\<close>

record StreamFor =
  sf_season :: int
  sf_episode :: int

text \<open>
  The \<open>state\<close> argument of a translator switch and the \<open>stateTo\<close> object built from it:
  \<open>state.season!\<close> and \<open>state.episode!\<close> are unchecked at run time, so either may be
  \<open>undefined\<close>.
\<close>

record SwitchState =
  season :: "int option"
  episode :: "int option"

section \<open>Transport, parsers and the world\<close>

text \<open>
  A form parameter or query value. \<open>String(n)\<close> of a number is kept as \<open>Num n\<close>,
  \<open>String(undefined)\<close> as \<open>Undefined\<close>.
\<close>

datatype pv = Str string | Num int | Undefined

datatype request =
  Post string "(string \<times> pv) list"   \<comment> \<open>\<open>ajax.post(url, params)\<close>\<close>
  | Get string                          \<comment> \<open>\<open>ajax.get(url)\<close>\<close>
  | Head string                         \<comment> \<open>\<open>axios.head(url)\<close>\<close>
  | HtmlGet string "(string \<times> pv) list"  \<comment> \<open>\<open>html.get(url, { params })\<close>\<close>

text \<open>
  The response envelope of the AJAX endpoint: \<open>success\<close>, \<open>message\<close>, the two HTML
  fragments \<open>seasons\<close> and \<open>episodes\<close> of a \<open>get_episodes\<close> answer, and the rest of the
  payload, which only \<open>parseStream\<close> reads.
\<close>

record StreamResponse =
  r_success :: bool
  r_message :: "string option"
  r_seasons :: string
  r_episodes :: string
  r_payload :: string

text \<open>
  The world holds the list of requests issued so far, oldest first, and the contents of
  the store behind \<open>db\<close>. The cache-busting \<open>?t=${Date.now()}\<close> of the AJAX url and
  the abort signal are not part of a request: the answer of the transport is a function
  of everything that was requested before, which covers an answer that changes with time
  and a request that is rejected because the signal was aborted.
\<close>

record world =
  requests :: "request list"
  cache_item :: "int \<rightharpoonup> string"
  cache_movie :: "int \<times> int \<rightharpoonup> StreamResponse"
  cache_size :: "int \<times> int \<rightharpoonup> int"
  cache_thumbnail :: "int \<rightharpoonup> string"

text \<open>
  \<open>fullId\<close> of an item: the numeric id and the three parts of its path.
\<close>

record FullId =
  f_id :: int
  f_typeId :: string
  f_genreId :: string
  f_slug :: string

text \<open>
  The collaborators that are imported from other modules: the transports behind \<open>ajax\<close>,
  \<open>html\<close> and \<open>axios\<close>, the parsers of \<open>./parser\<close> and \<open>bytesToStr\<close> of
  \<open>./utils\<close>. A document is its text, response headers are a map from names to text,
  and a parser may throw. \<open>Number\<close> is JavaScript's conversion of a header text to a
  number, taken as given.
\<close>

record env =
  net_post :: "request list \<Rightarrow> string \<Rightarrow> (string \<times> pv) list \<Rightarrow> error + StreamResponse"
  net_get :: "request list \<Rightarrow> string \<Rightarrow> error + string"
  net_head :: "request list \<Rightarrow> string \<Rightarrow> error + (string \<rightharpoonup> string)"
  net_html_get :: "request list \<Rightarrow> string \<Rightarrow> (string \<times> pv) list \<Rightarrow> error + string"
  parseStream :: "StreamResponse \<Rightarrow> error + Stream"
  parseStreamSeasons :: "string \<Rightarrow> string \<Rightarrow> error + Season list"
  parseItemDocument :: "string \<Rightarrow> FullId \<Rightarrow> error + BaseItem"
  parseItemDocumentEpisodes :: "string \<Rightarrow> error + string"
  parseSearchDocument :: "string \<Rightarrow> error + string list"
  bytesToStr :: "int \<Rightarrow> string"
  Number :: "string \<Rightarrow> int"

definition ajax_post ::
  "env \<Rightarrow> string \<Rightarrow> (string \<times> pv) list \<Rightarrow> world \<Rightarrow> (error + StreamResponse) \<times> world" where
  "ajax_post env url params w =
     (net_post env (requests w) url params, w\<lparr>requests := requests w @ [Post url params]\<rparr>)"

definition ajax_get :: "env \<Rightarrow> string \<Rightarrow> world \<Rightarrow> (error + string) \<times> world" where
  "ajax_get env url w = (net_get env (requests w) url, w\<lparr>requests := requests w @ [Get url]\<rparr>)"

definition axios_head ::
  "env \<Rightarrow> string \<Rightarrow> world \<Rightarrow> (error + (string \<rightharpoonup> string)) \<times> world" where
  "axios_head env url w =
     (net_head env (requests w) url, w\<lparr>requests := requests w @ [Head url]\<rparr>)"

definition html_get ::
  "env \<Rightarrow> string \<Rightarrow> (string \<times> pv) list \<Rightarrow> world \<Rightarrow> (error + string) \<times> world" where
  "html_get env url params w =
     (net_html_get env (requests w) url params,
      w\<lparr>requests := requests w @ [HtmlGet url params]\<rparr>)"

subsection \<open>The memoizing store\<close>

text \<open>
  Modelled from the spec: the module \<open>./database\<close> behind \<open>db\<close> is not among the
  sources. Each of its four operations takes a key and a computation; the computation
  runs only on a miss, its result is stored under the key and returned directly on
  later calls with the same key. The keys are the item id for a document, the item id
  with the translator id for a movie payload, the stream id with the quality id for a
  download size, and the stream id for a thumbnail sheet. A computation that throws
  stores nothing.
\<close>

definition db_getItem ::
  "int \<Rightarrow> (world \<Rightarrow> (error + string) \<times> world) \<Rightarrow> world \<Rightarrow> (error + string) \<times> world" where
  "db_getItem key compute w =
     (case cache_item w key of
        Some v \<Rightarrow> (Inr v, w)
      | None \<Rightarrow>
          (case compute w of
             (Inl err, w') \<Rightarrow> (Inl err, w')
           | (Inr v, w') \<Rightarrow> (Inr v, w'\<lparr>cache_item := (cache_item w')(key \<mapsto> v)\<rparr>)))"

definition db_getAjaxMovie ::
  "int \<times> int \<Rightarrow> (world \<Rightarrow> (error + StreamResponse) \<times> world) \<Rightarrow> world
   \<Rightarrow> (error + StreamResponse) \<times> world" where
  "db_getAjaxMovie key compute w =
     (case cache_movie w key of
        Some v \<Rightarrow> (Inr v, w)
      | None \<Rightarrow>
          (case compute w of
             (Inl err, w') \<Rightarrow> (Inl err, w')
           | (Inr v, w') \<Rightarrow> (Inr v, w'\<lparr>cache_movie := (cache_movie w')(key \<mapsto> v)\<rparr>)))"

definition db_getStreamSize ::
  "int \<times> int \<Rightarrow> (world \<Rightarrow> (error + int) \<times> world) \<Rightarrow> world \<Rightarrow> (error + int) \<times> world" where
  "db_getStreamSize key compute w =
     (case cache_size w key of
        Some v \<Rightarrow> (Inr v, w)
      | None \<Rightarrow>
          (case compute w of
             (Inl err, w') \<Rightarrow> (Inl err, w')
           | (Inr v, w') \<Rightarrow> (Inr v, w'\<lparr>cache_size := (cache_size w')(key \<mapsto> v)\<rparr>)))"

definition db_getStreamThumbnail ::
  "int \<Rightarrow> (world \<Rightarrow> (error + string) \<times> world) \<Rightarrow> world \<Rightarrow> (error + string) \<times> world" where
  "db_getStreamThumbnail key compute w =
     (case cache_thumbnail w key of
        Some v \<Rightarrow> (Inr v, w)
      | None \<Rightarrow>
          (case compute w of
             (Inl err, w') \<Rightarrow> (Inl err, w')
           | (Inr v, w') \<Rightarrow> (Inr v, w'\<lparr>cache_thumbnail := (cache_thumbnail w')(key \<mapsto> v)\<rparr>)))"

text \<open>\<open>data.message || dflt\<close>: an absent or empty message is falsy.\<close>

definition message_or :: "StreamResponse \<Rightarrow> string \<Rightarrow> string" where
  "message_or data dflt =
     (case r_message data of None \<Rightarrow> dflt | Some m \<Rightarrow> if m = [] then dflt else m)"

text \<open>
  \<open>n || alt\<close> on an optional number: \<open>undefined\<close> and \<open>0\<close> are falsy, and then the
  value is that of \<open>alt\<close>, which may be an exception.
\<close>

definition or_else :: "int option \<Rightarrow> error + int \<Rightarrow> error + int" where
  "or_else n alt = (case n of None \<Rightarrow> alt | Some k \<Rightarrow> if k = 0 then alt else Inr k)"

section \<open>Stream resolver\<close>

subsection \<open>\<open>fetchStreamDownloadSize\<close>, \<open>fetchStreamThumbnails\<close>, \<open>fetchStreamDetails\<close>\<close>

record FetchStreamDetailsArgs =
  da_stream :: Stream

record FetchStreamDownloadSizeArgs =
  za_stream :: Stream
  za_qualityId :: int

record DownloadSize =
  z_id :: int
  z_downloadSize :: int
  z_downloadSizeStr :: string

record StreamDetails =
  thumbnails :: string
  sizes :: "DownloadSize list"

text \<open>\<open>a || b || '0'\<close> on two header values: an absent or empty text is falsy.\<close>

definition content_length :: "(string \<rightharpoonup> string) \<Rightarrow> string" where
  "content_length headers =
     (case headers ''Content-Length'' of
        Some a \<Rightarrow>
          (if a \<noteq> [] then a
           else case headers ''content-length'' of
                  Some b \<Rightarrow> (if b \<noteq> [] then b else ''0'')
                | None \<Rightarrow> ''0'')
      | None \<Rightarrow>
          (case headers ''content-length'' of
             Some b \<Rightarrow> (if b \<noteq> [] then b else ''0'')
           | None \<Rightarrow> ''0''))"

definition fetchStreamDownloadSize_body ::
  "env \<Rightarrow> FetchStreamDownloadSizeArgs \<Rightarrow> world \<Rightarrow> (error + DownloadSize) \<times> world" where
  "fetchStreamDownloadSize_body env args w =
     (case db_getStreamSize (st_id (za_stream args), za_qualityId args)
             (\<lambda>w0. case find (\<lambda>q. q_id q = za_qualityId args) (st_qualities (za_stream args)) of
                     None \<Rightarrow> (Inl TypeError, w0)
                   | Some quality \<Rightarrow>
                       (case axios_head env (q_downloadUrl quality) w0 of
                          (Inl err, w1) \<Rightarrow> (Inl err, w1)
                        | (Inr headers, w1) \<Rightarrow> (Inr (Number env (content_length headers)), w1)))
             w of
        (Inl err, w') \<Rightarrow> (Inl err, w')
      | (Inr sz, w') \<Rightarrow>
          (Inr \<lparr>z_id = za_qualityId args, z_downloadSize = sz,
                z_downloadSizeStr = bytesToStr env sz\<rparr>, w'))"

function fetchStreamDownloadSize ::
  "env \<Rightarrow> FetchStreamDownloadSizeArgs \<Rightarrow> int \<Rightarrow> world \<Rightarrow> (error + DownloadSize) \<times> world" where
  "fetchStreamDownloadSize env args retry w =
     (case fetchStreamDownloadSize_body env args w of
        (Inr v, w') \<Rightarrow> (Inr v, w')
      | (Inl err, w') \<Rightarrow>
          if retry < 3 then fetchStreamDownloadSize env args (retry + 1) w'
          else (Inl err, w'))"
  by pat_completeness auto
termination
  by (relation "measure (\<lambda>(env, args, retry, w). nat (3 - retry))") auto

text \<open>
  \<open>fetchStreamDetails\<close> passes its own \<open>args\<close> on to \<open>fetchStreamThumbnails\<close>, so both
  take the same record.
\<close>

definition fetchStreamThumbnails_body ::
  "env \<Rightarrow> FetchStreamDetailsArgs \<Rightarrow> world \<Rightarrow> (error + string) \<times> world" where
  "fetchStreamThumbnails_body env args w =
     db_getStreamThumbnail (st_id (da_stream args))
       (\<lambda>w0. ajax_get env (st_thumbnailsUrl (da_stream args)) w0) w"

function fetchStreamThumbnails ::
  "env \<Rightarrow> FetchStreamDetailsArgs \<Rightarrow> int \<Rightarrow> world \<Rightarrow> (error + string) \<times> world" where
  "fetchStreamThumbnails env args retry w =
     (case fetchStreamThumbnails_body env args w of
        (Inr v, w') \<Rightarrow> (Inr v, w')
      | (Inl err, w') \<Rightarrow>
          if retry < 3 then fetchStreamThumbnails env args (retry + 1) w'
          else (Inl err, w'))"
  by pat_completeness auto
termination
  by (relation "measure (\<lambda>(env, args, retry, w). nat (3 - retry))") auto

text \<open>
  The operations that \<open>fetchStreamDetails\<close> starts run to their end whether or not
  another one fails. In the source they are interleaved; the model runs them one after
  the other in the order in which the source starts them and keeps every outcome.
\<close>

fun run_all ::
  "(world \<Rightarrow> (error + 'a) \<times> world) list \<Rightarrow> world \<Rightarrow> (error + 'a) list \<times> world" where
  "run_all [] w = ([], w)"
| "run_all (p # ps) w =
     (case p w of (r, w1) \<Rightarrow> (case run_all ps w1 of (rs, w2) \<Rightarrow> (r # rs, w2)))"

text \<open>
  \<open>Promise.all\<close> over settled outcomes: the array of all values when every promise is
  fulfilled, a rejection otherwise. Of several rejections the source reports the earliest
  in time; the model reports the first in array order, and the properties below only
  rely on the error being that of one of the rejected promises.
\<close>

fun Promise_all :: "(error + 'a) list \<Rightarrow> error + 'a list" where
  "Promise_all [] = Inr []"
| "Promise_all (Inl err # rs) = Inl err"
| "Promise_all (Inr v # rs) =
     (case Promise_all rs of Inl err \<Rightarrow> Inl err | Inr vs \<Rightarrow> Inr (v # vs))"

text \<open>\<open>Promise.all([a, b])\<close> of two promises of different types.\<close>

definition Promise_all2 :: "error + 'a \<Rightarrow> error + 'b \<Rightarrow> error + 'a \<times> 'b" where
  "Promise_all2 a b =
     (case a of
        Inl err \<Rightarrow> Inl err
      | Inr x \<Rightarrow> (case b of Inl err \<Rightarrow> Inl err | Inr y \<Rightarrow> Inr (x, y)))"

text \<open>
  The first two statements of the \<open>try\<close> block: the thumbnail fetch and one size fetch
  per quality are started. The result is the outcome of each.
\<close>

definition fetchStreamDetails_start ::
  "env \<Rightarrow> FetchStreamDetailsArgs \<Rightarrow> world
   \<Rightarrow> ((error + string) \<times> (error + DownloadSize) list) \<times> world" where
  "fetchStreamDetails_start env args w =
     (case fetchStreamThumbnails env args 0 w of
        (thumbnailsPromise, w1) \<Rightarrow>
          (case run_all
                  (map (\<lambda>q. fetchStreamDownloadSize env
                               \<lparr>za_stream = da_stream args, za_qualityId = q_id q\<rparr> 0)
                       (st_qualities (da_stream args))) w1 of
             (promises, w2) \<Rightarrow> ((thumbnailsPromise, promises), w2)))"

definition fetchStreamDetails_body ::
  "env \<Rightarrow> FetchStreamDetailsArgs \<Rightarrow> world \<Rightarrow> (error + StreamDetails) \<times> world" where
  "fetchStreamDetails_body env args w =
     (case fetchStreamDetails_start env args w of
        ((thumbnailsPromise, promises), w2) \<Rightarrow>
          (case Promise_all2 (Promise_all promises) thumbnailsPromise of
             Inl err \<Rightarrow> (Inl err, w2)
           | Inr (szs, thumbs) \<Rightarrow> (Inr \<lparr>thumbnails = thumbs, sizes = szs\<rparr>, w2)))"

function fetchStreamDetails ::
  "env \<Rightarrow> FetchStreamDetailsArgs \<Rightarrow> int \<Rightarrow> world \<Rightarrow> (error + StreamDetails) \<times> world" where
  "fetchStreamDetails env args retry w =
     (case fetchStreamDetails_body env args w of
        (Inr v, w') \<Rightarrow> (Inr v, w')
      | (Inl err, w') \<Rightarrow>
          if retry < 3 then fetchStreamDetails env args (retry + 1) w'
          else (Inl err, w'))"
  by pat_completeness auto
termination
  by (relation "measure (\<lambda>(env, args, retry, w). nat (3 - retry))") auto

subsection \<open>\<open>fetchMovieStream\<close>\<close>

record FetchMovieStreamArgs =
  ma_id :: int
  ma_translatorId :: int
  ma_favsId :: string
  ma_isCamrip :: bool
  ma_isAds :: bool
  ma_isDirector :: bool

text \<open>\<open>Number(b)\<close> of a boolean.\<close>

definition Number_of_bool :: "bool \<Rightarrow> int" where
  "Number_of_bool b = (if b then 1 else 0)"

definition fetchMovieStream_body ::
  "env \<Rightarrow> FetchMovieStreamArgs \<Rightarrow> world \<Rightarrow> (error + Stream) \<times> world" where
  "fetchMovieStream_body env args w =
     (case db_getAjaxMovie (ma_id args, ma_translatorId args)
             (\<lambda>w0. let params =
                         [(''id'', Num (ma_id args)),
                          (''translator_id'', Num (ma_translatorId args)),
                          (''favs'', Str (ma_favsId args)),
                          (''is_camrip'', Num (Number_of_bool (ma_isCamrip args))),
                          (''is_ads'', Num (Number_of_bool (ma_isAds args))),
                          (''is_director'', Num (Number_of_bool (ma_isDirector args))),
                          (''action'', Str ''get_movie'')]
                   in case ajax_post env ''/ajax/get_cdn_series/'' params w0 of
                        (Inl err, w1) \<Rightarrow> (Inl err, w1)
                      | (Inr data, w1) \<Rightarrow>
                          if \<not> r_success data
                          then (Inl (Error (message_or data
                                  ''Unable to get movie stream details. Try again later.'')), w1)
                          else (Inr data, w1))
             w of
        (Inl err, w') \<Rightarrow> (Inl err, w')
      | (Inr data, w') \<Rightarrow> (parseStream env data, w'))"

function fetchMovieStream ::
  "env \<Rightarrow> FetchMovieStreamArgs \<Rightarrow> int \<Rightarrow> world \<Rightarrow> (error + Stream) \<times> world" where
  "fetchMovieStream env args retry w =
     (case fetchMovieStream_body env args w of
        (Inr v, w') \<Rightarrow> (Inr v, w')
      | (Inl err, w') \<Rightarrow>
          if retry < 3 then fetchMovieStream env args (retry + 1) w' else (Inl err, w'))"
  by pat_completeness auto
termination
  by (relation "measure (\<lambda>(env, args, retry, w). nat (3 - retry))") auto

subsection \<open>\<open>fetchSeriesStream\<close>\<close>

record FetchSeriesStreamArgs =
  fa_id :: int
  fa_translatorId :: int
  fa_favsId :: string
  fa_season :: "int option"
  fa_episode :: "int option"

definition num_or_undefined :: "int option \<Rightarrow> pv" where
  "num_or_undefined n = (case n of None \<Rightarrow> Undefined | Some k \<Rightarrow> Num k)"

text \<open>The form parameters of the post.\<close>

definition fetchSeriesStream_params :: "FetchSeriesStreamArgs \<Rightarrow> (string \<times> pv) list" where
  "fetchSeriesStream_params args =
     [(''id'', Num (fa_id args)),
      (''translator_id'', Num (fa_translatorId args)),
      (''favs'', Str (fa_favsId args)),
      (''season'', num_or_undefined (fa_season args)),
      (''episode'', num_or_undefined (fa_episode args)),
      (''action'', Str ''get_stream'')]"

text \<open>The \<open>try\<close> block of \<open>fetchSeriesStream\<close>.\<close>

definition fetchSeriesStream_body ::
  "env \<Rightarrow> FetchSeriesStreamArgs \<Rightarrow> world \<Rightarrow> (error + Stream) \<times> world" where
  "fetchSeriesStream_body env args w =
     (let params = fetchSeriesStream_params args
      in case ajax_post env ''/ajax/get_cdn_series/'' params w of
           (Inl err, w') \<Rightarrow> (Inl err, w')
         | (Inr data, w') \<Rightarrow>
             if \<not> r_success data
             then (Inl (Error (message_or data
                     ''Unable to get episode stream details. Try again later.'')), w')
             else (parseStream env data, w'))"

text \<open>
  The function with its \<open>catch\<close> block: a failed attempt is repeated while \<open>retry < 3\<close>,
  then the error is thrown. A caller that omits \<open>retry\<close> passes \<open>0\<close>.
\<close>

function fetchSeriesStream ::
  "env \<Rightarrow> FetchSeriesStreamArgs \<Rightarrow> int \<Rightarrow> world \<Rightarrow> (error + Stream) \<times> world" where
  "fetchSeriesStream env args retry w =
     (case fetchSeriesStream_body env args w of
        (Inr v, w') \<Rightarrow> (Inr v, w')
      | (Inl err, w') \<Rightarrow>
          if retry < 3 then fetchSeriesStream env args (retry + 1) w' else (Inl err, w'))"
  by pat_completeness auto
termination
  by (relation "measure (\<lambda>(env, args, retry, w). nat (3 - retry))") auto

subsection \<open>\<open>fetchSeriesEpisodesStream\<close>\<close>

record FetchSeriesEpisodesStreamArgs =
  ea_id :: int
  ea_translatorId :: int
  ea_favsId :: string
  ea_season :: "int option"
  ea_episode :: "int option"

record SeriesEpisodesStream =
  se_seasons :: "Season list"
  se_stream :: Stream
  se_streamFor :: StreamFor

text \<open>\<open>seasons[0].number\<close>; \<open>seasons[0]\<close> is \<open>undefined\<close> on an empty array.\<close>

definition first_season_number :: "Season list \<Rightarrow> error + int" where
  "first_season_number seasons =
     (case seasons of [] \<Rightarrow> Inl TypeError | s # _ \<Rightarrow> Inr (s_number s))"

text \<open>\<open>seasons[0].episodes[0].number\<close>.\<close>

definition first_episode_number :: "Season list \<Rightarrow> error + int" where
  "first_episode_number seasons =
     (case seasons of
        [] \<Rightarrow> Inl TypeError
      | s # _ \<Rightarrow> (case s_episodes s of [] \<Rightarrow> Inl TypeError | e # _ \<Rightarrow> Inr (e_number e)))"

text \<open>
  The form parameters of the post: \<open>season\<close> and \<open>episode\<close> are appended when the hint
  is a number.
\<close>

definition fetchSeriesEpisodesStream_params ::
  "FetchSeriesEpisodesStreamArgs \<Rightarrow> (string \<times> pv) list" where
  "fetchSeriesEpisodesStream_params args =
     [(''id'', Num (ea_id args)),
      (''translator_id'', Num (ea_translatorId args)),
      (''favs'', Str (ea_favsId args)),
      (''action'', Str ''get_episodes'')]
     @ (case ea_season args of Some n \<Rightarrow> [(''season'', Num n)] | None \<Rightarrow> [])
     @ (case ea_episode args of Some n \<Rightarrow> [(''episode'', Num n)] | None \<Rightarrow> [])"

definition fetchSeriesEpisodesStream_body ::
  "env \<Rightarrow> FetchSeriesEpisodesStreamArgs \<Rightarrow> world \<Rightarrow> (error + SeriesEpisodesStream) \<times> world" where
  "fetchSeriesEpisodesStream_body env args w =
     (let params = fetchSeriesEpisodesStream_params args
      in case ajax_post env ''/ajax/get_cdn_series/'' params w of
           (Inl err, w') \<Rightarrow> (Inl err, w')
         | (Inr data, w') \<Rightarrow>
             if \<not> r_success data
             then (Inl (Error (message_or data
                     ''Unable to get episodes list. Try again later.'')), w')
             else
               (case parseStreamSeasons env (r_seasons data) (r_episodes data) of
                  Inl err \<Rightarrow> (Inl err, w')
                | Inr seasons \<Rightarrow>
                    (case parseStream env data of
                       Inl err \<Rightarrow> (Inl err, w')
                     | Inr stream \<Rightarrow>
                         (case or_else (ea_season args) (first_season_number seasons) of
                            Inl err \<Rightarrow> (Inl err, w')
                          | Inr s \<Rightarrow>
                              (case or_else (ea_episode args) (first_episode_number seasons) of
                                 Inl err \<Rightarrow> (Inl err, w')
                               | Inr e \<Rightarrow>
                                   (Inr \<lparr>se_seasons = seasons, se_stream = stream,
                                         se_streamFor = \<lparr>sf_season = s, sf_episode = e\<rparr>\<rparr>,
                                    w'))))))"

function fetchSeriesEpisodesStream ::
  "env \<Rightarrow> FetchSeriesEpisodesStreamArgs \<Rightarrow> int \<Rightarrow> world
   \<Rightarrow> (error + SeriesEpisodesStream) \<times> world" where
  "fetchSeriesEpisodesStream env args retry w =
     (case fetchSeriesEpisodesStream_body env args w of
        (Inr v, w') \<Rightarrow> (Inr v, w')
      | (Inl err, w') \<Rightarrow>
          if retry < 3 then fetchSeriesEpisodesStream env args (retry + 1) w'
          else (Inl err, w'))"
  by pat_completeness auto
termination
  by (relation "measure (\<lambda>(env, args, retry, w). nat (3 - retry))") auto

text \<open>
  The tree built from a fetched episode list: every leaf is \<open>null\<close> except the one that
  \<open>streamFor\<close> names, which gets the fetched stream.
\<close>

definition tree_of :: "SeriesEpisodesStream \<Rightarrow> ItemSeriesSeasonStream list" where
  "tree_of res =
     map (\<lambda>s. \<lparr>ss_number = s_number s, ss_title = s_title s,
               ss_episodes =
                 map (\<lambda>e. \<lparr>es_number = e_number e, es_title = e_title e,
                           es_stream =
                             (if s_number s = sf_season (se_streamFor res)
                                 \<and> e_number e = sf_episode (se_streamFor res)
                              then Some (se_stream res) else None)\<rparr>)
                     (s_episodes s)\<rparr>)
         (se_seasons res)"

section \<open>Search and item assembler\<close>

subsection \<open>\<open>fetchSearch\<close>\<close>

record FetchSearchArgs =
  qa_query :: string

definition fetchSearch_body ::
  "env \<Rightarrow> FetchSearchArgs \<Rightarrow> world \<Rightarrow> (error + string list) \<times> world" where
  "fetchSearch_body env args w =
     (let params = [(''q'', Str (qa_query args)), (''do'', Str ''search''),
                    (''subaction'', Str ''search'')]
      in case html_get env ''/search/'' params w of
           (Inl err, w') \<Rightarrow> (Inl err, w')
         | (Inr data, w') \<Rightarrow> (parseSearchDocument env data, w'))"

function fetchSearch ::
  "env \<Rightarrow> FetchSearchArgs \<Rightarrow> int \<Rightarrow> world \<Rightarrow> (error + string list) \<times> world" where
  "fetchSearch env args retry w =
     (case fetchSearch_body env args w of
        (Inr v, w') \<Rightarrow> (Inr v, w')
      | (Inl err, w') \<Rightarrow>
          if retry < 3 then fetchSearch env args (retry + 1) w' else (Inl err, w'))"
  by pat_completeness auto
termination
  by (relation "measure (\<lambda>(env, args, retry, w). nat (3 - retry))") auto

subsection \<open>\<open>fetchItemMovie\<close>\<close>

text \<open>
  \<open>translator\<close> is \<open>undefined\<close> when \<open>fetchItem\<close> finds the item without translators;
  reading \<open>translator.id\<close> is then a \<open>TypeError\<close>.
\<close>

record FetchItemMovieArgs =
  ima_baseItem :: BaseItem
  ima_translator :: "Translator option"

definition fetchItemMovie_body ::
  "env \<Rightarrow> FetchItemMovieArgs \<Rightarrow> world \<Rightarrow> (error + ItemMovie) \<times> world" where
  "fetchItemMovie_body env args w =
     (let baseItem = ima_baseItem args in
      case ima_translator args of
        None \<Rightarrow> (Inl TypeError, w)
      | Some translator \<Rightarrow>
          (case fetchMovieStream env
                  \<lparr>ma_id = b_id baseItem, ma_translatorId = t_id translator,
                   ma_favsId = b_favsId baseItem, ma_isCamrip = t_isCamrip translator,
                   ma_isAds = t_isAds translator, ma_isDirector = t_isDirector translator\<rparr>
                  0 w of
             (Inl err, w') \<Rightarrow> (Inl err, w')
           | (Inr stream, w') \<Rightarrow>
               (Inr \<lparr>m_id = b_id baseItem, m_favsId = b_favsId baseItem,
                     m_translators = b_translators baseItem,
                     m_ogType = ''video.movie'', m_details = b_details baseItem,
                     m_itemType = ''movie'',
                     m_streams =
                       map (\<lambda>t. \<lparr>ms_translatorId = t_id t,
                                 ms_stream = (if t_id t = t_id translator
                                              then Some stream else None)\<rparr>)
                           (b_translators baseItem)\<rparr>,
                w')))"

function fetchItemMovie ::
  "env \<Rightarrow> FetchItemMovieArgs \<Rightarrow> int \<Rightarrow> world \<Rightarrow> (error + ItemMovie) \<times> world" where
  "fetchItemMovie env args retry w =
     (case fetchItemMovie_body env args w of
        (Inr v, w') \<Rightarrow> (Inr v, w')
      | (Inl err, w') \<Rightarrow>
          if retry < 3 then fetchItemMovie env args (retry + 1) w' else (Inl err, w'))"
  by pat_completeness auto
termination
  by (relation "measure (\<lambda>(env, args, retry, w). nat (3 - retry))") auto

subsection \<open>\<open>fetchItemSeries\<close>\<close>

record FetchItemSeriesArgs =
  isa_baseItem :: BaseItem
  isa_translator :: "Translator option"
  isa_document :: string
  isa_season :: "int option"
  isa_episode :: "int option"

definition fetchItemSeries_body ::
  "env \<Rightarrow> FetchItemSeriesArgs \<Rightarrow> world \<Rightarrow> (error + ItemSeries) \<times> world" where
  "fetchItemSeries_body env args w =
     (let baseItem = isa_baseItem args in
      case parseItemDocumentEpisodes env (isa_document args) of
        Inl err \<Rightarrow> (Inl err, w)
      | Inr episodesInfo \<Rightarrow>
          (case isa_translator args of
             None \<Rightarrow> (Inl TypeError, w)
           | Some translator \<Rightarrow>
               (case fetchSeriesEpisodesStream env
                       \<lparr>ea_id = b_id baseItem, ea_translatorId = t_id translator,
                        ea_favsId = b_favsId baseItem,
                        ea_season = isa_season args, ea_episode = isa_episode args\<rparr> 0 w of
                  (Inl err, w') \<Rightarrow> (Inl err, w')
                | (Inr res, w') \<Rightarrow>
                    (Inr \<lparr>i_id = b_id baseItem, i_favsId = b_favsId baseItem,
                          i_translators = b_translators baseItem,
                          i_ogType = ''video.tv_series'', i_details = b_details baseItem,
                          i_itemType = ''series'', i_episodesInfo = episodesInfo,
                          i_streams =
                            map (\<lambda>t. \<lparr>sr_translatorId = t_id t,
                                      sr_seasons = (if t_id t = t_id translator
                                                    then Some (tree_of res) else None)\<rparr>)
                                (b_translators baseItem)\<rparr>,
                     w'))))"

function fetchItemSeries ::
  "env \<Rightarrow> FetchItemSeriesArgs \<Rightarrow> int \<Rightarrow> world \<Rightarrow> (error + ItemSeries) \<times> world" where
  "fetchItemSeries env args retry w =
     (case fetchItemSeries_body env args w of
        (Inr v, w') \<Rightarrow> (Inr v, w')
      | (Inl err, w') \<Rightarrow>
          if retry < 3 then fetchItemSeries env args (retry + 1) w' else (Inl err, w'))"
  by pat_completeness auto
termination
  by (relation "measure (\<lambda>(env, args, retry, w). nat (3 - retry))") auto

subsection \<open>\<open>fetchItem\<close>\<close>

text \<open>The union \<open>Item\<close>; its tag \<open>itemType\<close> is the constructor.\<close>

datatype Item = Movie ItemMovie | Series ItemSeries

record FetchItemArgs =
  ia_fullId :: FullId
  ia_translatorId :: "int option"
  ia_season :: "int option"
  ia_episode :: "int option"

text \<open>\<open>translators.find((t) => t.id === translatorId) || translators[0]\<close>.\<close>

definition select_translator :: "Translator list \<Rightarrow> int option \<Rightarrow> Translator option" where
  "select_translator translators translatorId =
     (case find (\<lambda>t. Some (t_id t) = translatorId) translators of
        Some t \<Rightarrow> Some t
      | None \<Rightarrow> (case translators of [] \<Rightarrow> None | t # _ \<Rightarrow> Some t))"

definition fetchItem_body :: "env \<Rightarrow> FetchItemArgs \<Rightarrow> world \<Rightarrow> (error + Item) \<times> world" where
  "fetchItem_body env args w =
     (let fullId = ia_fullId args in
      case db_getItem (f_id fullId)
             (\<lambda>w0. html_get env
                     (''/'' @ f_typeId fullId @ ''/'' @ f_genreId fullId @ ''/''
                        @ f_slug fullId @ ''.html'') [] w0) w of
        (Inl err, w1) \<Rightarrow> (Inl err, w1)
      | (Inr data, w1) \<Rightarrow>
          (case parseItemDocument env data fullId of
             Inl err \<Rightarrow> (Inl err, w1)
           | Inr baseItem \<Rightarrow>
               (let translator = select_translator (b_translators baseItem) (ia_translatorId args)
                in if b_ogType baseItem = ''video.movie''
                   then (case fetchItemMovie env
                                 \<lparr>ima_baseItem = baseItem, ima_translator = translator\<rparr> 0 w1 of
                           (Inl err, w2) \<Rightarrow> (Inl err, w2)
                         | (Inr m, w2) \<Rightarrow> (Inr (Movie m), w2))
                   else (case fetchItemSeries env
                                 \<lparr>isa_baseItem = baseItem, isa_translator = translator,
                                  isa_document = data, isa_season = ia_season args,
                                  isa_episode = ia_episode args\<rparr> 0 w1 of
                           (Inl err, w2) \<Rightarrow> (Inl err, w2)
                         | (Inr i, w2) \<Rightarrow> (Inr (Series i), w2)))))"

function fetchItem :: "env \<Rightarrow> FetchItemArgs \<Rightarrow> int \<Rightarrow> world \<Rightarrow> (error + Item) \<times> world" where
  "fetchItem env args retry w =
     (case fetchItem_body env args w of
        (Inr v, w') \<Rightarrow> (Inr v, w')
      | (Inl err, w') \<Rightarrow>
          if retry < 3 then fetchItem env args (retry + 1) w' else (Inl err, w'))"
  by pat_completeness auto
termination
  by (relation "measure (\<lambda>(env, args, retry, w). nat (3 - retry))") auto

section \<open>Translator switch resolver\<close>

subsection \<open>\<open>fetchMovieTranslator\<close>\<close>

record FetchMovieTranslatorArgs =
  mta_item :: ItemMovie
  mta_translatorId :: int

text \<open>The result \<open>{ type: 'movie', stream? }\<close>: \<open>stream\<close> is absent on a cache hit.\<close>

record FetchMovieTranslatorResponse =
  mr_stream :: "Stream option"

definition fetchMovieTranslator_body ::
  "env \<Rightarrow> FetchMovieTranslatorArgs \<Rightarrow> world
   \<Rightarrow> (error + FetchMovieTranslatorResponse) \<times> world" where
  "fetchMovieTranslator_body env args w =
     (let item = mta_item args in
      case find (\<lambda>s. ms_translatorId s = mta_translatorId args) (m_streams item) of
        None \<Rightarrow> (Inl TypeError, w)
      | Some found \<Rightarrow>
          (case ms_stream found of
             Some foundStream \<Rightarrow> (Inr \<lparr>mr_stream = None\<rparr>, w)
           | None \<Rightarrow>
               (case find (\<lambda>t. t_id t = mta_translatorId args) (m_translators item) of
                  None \<Rightarrow> (Inl TypeError, w)
                | Some translator \<Rightarrow>
                    (case fetchMovieStream env
                            \<lparr>ma_id = m_id item, ma_translatorId = mta_translatorId args,
                             ma_favsId = m_favsId item,
                             ma_isCamrip = t_isCamrip translator,
                             ma_isAds = t_isAds translator,
                             ma_isDirector = t_isDirector translator\<rparr> 0 w of
                       (Inl err, w') \<Rightarrow> (Inl err, w')
                     | (Inr stream, w') \<Rightarrow> (Inr \<lparr>mr_stream = Some stream\<rparr>, w')))))"

function fetchMovieTranslator ::
  "env \<Rightarrow> FetchMovieTranslatorArgs \<Rightarrow> int \<Rightarrow> world
   \<Rightarrow> (error + FetchMovieTranslatorResponse) \<times> world" where
  "fetchMovieTranslator env args retry w =
     (case fetchMovieTranslator_body env args w of
        (Inr v, w') \<Rightarrow> (Inr v, w')
      | (Inl err, w') \<Rightarrow>
          if retry < 3 then fetchMovieTranslator env args (retry + 1) w'
          else (Inl err, w'))"
  by pat_completeness auto
termination
  by (relation "measure (\<lambda>(env, args, retry, w). nat (3 - retry))") auto

subsection \<open>\<open>fetchSeriesTranslator\<close>\<close>

record FetchSeriesTranslatorArgs =
  ta_item :: ItemSeries
  ta_translatorId :: int
  ta_state :: SwitchState

record SeriesNext =
  n_stream :: Stream
  n_streamFor :: SwitchState

record FetchSeriesTranslatorResponse =
  stateTo :: SwitchState
  initial :: "ItemSeriesSeasonStream list option"
  "next" :: "SeriesNext option"

text \<open>
  The seasons of the target translator: the tree of the item when it is known, a freshly
  fetched one otherwise, which is also returned as \<open>initial\<close>. Reading \<open>.seasons\<close> of a
  missing \<open>streams\<close> entry is a \<open>TypeError\<close>.
\<close>

definition fetchSeriesTranslator_seasons ::
  "env \<Rightarrow> FetchSeriesTranslatorArgs \<Rightarrow> world
   \<Rightarrow> (error + ItemSeriesSeasonStream list \<times> ItemSeriesSeasonStream list option) \<times> world" where
  "fetchSeriesTranslator_seasons env args w =
     (case find (\<lambda>s. sr_translatorId s = ta_translatorId args) (i_streams (ta_item args)) of
        None \<Rightarrow> (Inl TypeError, w)
      | Some found \<Rightarrow>
          (case sr_seasons found of
             Some seasons \<Rightarrow> (Inr (seasons, None), w)
           | None \<Rightarrow>
               (case fetchSeriesEpisodesStream env
                       \<lparr>ea_id = i_id (ta_item args), ea_translatorId = ta_translatorId args,
                        ea_favsId = i_favsId (ta_item args),
                        ea_season = None, ea_episode = None\<rparr> 0 w of
                  (Inl err, w') \<Rightarrow> (Inl err, w')
                | (Inr res, w') \<Rightarrow> (Inr (tree_of res, Some (tree_of res)), w'))))"

text \<open>
  The search for the requested season and episode with its two fall-backs. The result is
  the updated \<open>stateTo\<close> and the episode object that the rest of the function reads.
  \<open>seasons[0].number\<close> on an empty tree and \<open>episodes[0].number\<close> on a season without
  episodes are \<open>TypeError\<close>s.
\<close>

definition fetchSeriesTranslator_clamp ::
  "ItemSeriesSeasonStream list \<Rightarrow> SwitchState \<Rightarrow> error + SwitchState \<times> ItemSeriesEpisodeStream" where
  "fetchSeriesTranslator_clamp seasons st =
     (case find (\<lambda>s. Some (ss_number s) = season st) seasons of
        None \<Rightarrow>
          (case seasons of
             [] \<Rightarrow> Inl TypeError
           | s # _ \<Rightarrow>
               (case ss_episodes s of
                  [] \<Rightarrow> Inl TypeError
                | e # _ \<Rightarrow>
                    Inr (\<lparr>season = Some (ss_number s), episode = Some (es_number e)\<rparr>, e)))
      | Some s \<Rightarrow>
          (case find (\<lambda>e. Some (es_number e) = episode st) (ss_episodes s) of
             Some e \<Rightarrow> Inr (st, e)
           | None \<Rightarrow>
               (case ss_episodes s of
                  [] \<Rightarrow> Inl TypeError
                | e # _ \<Rightarrow> Inr (st\<lparr>episode := Some (es_number e)\<rparr>, e))))"

definition fetchSeriesTranslator_body ::
  "env \<Rightarrow> FetchSeriesTranslatorArgs \<Rightarrow> world
   \<Rightarrow> (error + FetchSeriesTranslatorResponse) \<times> world" where
  "fetchSeriesTranslator_body env args w =
     (case fetchSeriesTranslator_seasons env args w of
        (Inl err, w1) \<Rightarrow> (Inl err, w1)
      | (Inr (seasons, init), w1) \<Rightarrow>
          (case fetchSeriesTranslator_clamp seasons (ta_state args) of
             Inl err \<Rightarrow> (Inl err, w1)
           | Inr (st, ep) \<Rightarrow>
               (case es_stream ep of
                  Some _ \<Rightarrow> (Inr \<lparr>stateTo = st, initial = init, next = None\<rparr>, w1)
                | None \<Rightarrow>
                    (case fetchSeriesStream env
                            \<lparr>fa_id = i_id (ta_item args),
                             fa_translatorId = ta_translatorId args,
                             fa_favsId = i_favsId (ta_item args),
                             fa_season = season st, fa_episode = episode st\<rparr> 0 w1 of
                       (Inl err, w2) \<Rightarrow> (Inl err, w2)
                     | (Inr stream, w2) \<Rightarrow>
                         (Inr \<lparr>stateTo = st, initial = init,
                               next = Some \<lparr>n_stream = stream, n_streamFor = st\<rparr>\<rparr>,
                          w2)))))"

function fetchSeriesTranslator ::
  "env \<Rightarrow> FetchSeriesTranslatorArgs \<Rightarrow> int \<Rightarrow> world
   \<Rightarrow> (error + FetchSeriesTranslatorResponse) \<times> world" where
  "fetchSeriesTranslator env args retry w =
     (case fetchSeriesTranslator_body env args w of
        (Inr v, w') \<Rightarrow> (Inr v, w')
      | (Inl err, w') \<Rightarrow>
          if retry < 3 then fetchSeriesTranslator env args (retry + 1) w'
          else (Inl err, w'))"
  by pat_completeness auto
termination
  by (relation "measure (\<lambda>(env, args, retry, w). nat (3 - retry))") auto

subsection \<open>\<open>fetchTranslator\<close>\<close>

record FetchTranslatorArgs =
  xa_item :: Item
  xa_translatorId :: int
  xa_state :: SwitchState

text \<open>The result of either path; its tag \<open>type\<close> is the constructor.\<close>

datatype FetchTranslatorResponse =
  MovieResponse FetchMovieTranslatorResponse
  | SeriesResponse FetchSeriesTranslatorResponse

definition fetchTranslator_body ::
  "env \<Rightarrow> FetchTranslatorArgs \<Rightarrow> world \<Rightarrow> (error + FetchTranslatorResponse) \<times> world" where
  "fetchTranslator_body env args w =
     (case xa_item args of
        Series item \<Rightarrow>
          (case fetchSeriesTranslator env
                  \<lparr>ta_item = item, ta_translatorId = xa_translatorId args,
                   ta_state = xa_state args\<rparr> 0 w of
             (Inl err, w') \<Rightarrow> (Inl err, w')
           | (Inr r, w') \<Rightarrow> (Inr (SeriesResponse r), w'))
      | Movie item \<Rightarrow>
          (case fetchMovieTranslator env
                  \<lparr>mta_item = item, mta_translatorId = xa_translatorId args\<rparr> 0 w of
             (Inl err, w') \<Rightarrow> (Inl err, w')
           | (Inr r, w') \<Rightarrow> (Inr (MovieResponse r), w')))"

function fetchTranslator ::
  "env \<Rightarrow> FetchTranslatorArgs \<Rightarrow> int \<Rightarrow> world
   \<Rightarrow> (error + FetchTranslatorResponse) \<times> world" where
  "fetchTranslator env args retry w =
     (case fetchTranslator_body env args w of
        (Inr v, w') \<Rightarrow> (Inr v, w')
      | (Inl err, w') \<Rightarrow>
          if retry < 3 then fetchTranslator env args (retry + 1) w' else (Inl err, w'))"
  by pat_completeness auto
termination
  by (relation "measure (\<lambda>(env, args, retry, w). nat (3 - retry))") auto

section \<open>Vocabulary of the properties\<close>

subsection \<open>Retry\<close>

text \<open>
  The shape that the \<open>try\<close>/\<open>catch\<close> of every exported function has, over an arbitrary
  body. Each function above is shown equal to this loop over its own body, so that a
  fact about retrying is proved once.
\<close>

function retry_loop ::
  "(world \<Rightarrow> (error + 'a) \<times> world) \<Rightarrow> int \<Rightarrow> world \<Rightarrow> (error + 'a) \<times> world" where
  "retry_loop body retry w =
     (case body w of
        (Inr v, w') \<Rightarrow> (Inr v, w')
      | (Inl err, w') \<Rightarrow> if retry < 3 then retry_loop body (retry + 1) w' else (Inl err, w'))"
  by pat_completeness auto
termination
  by (relation "measure (\<lambda>(body, retry, w). nat (3 - retry))") auto

text \<open>
  \<open>n\<close> executions of a body one after the other, each from the world that the one
  before left: the outcomes in order and the final world.
\<close>

fun attempts ::
  "(world \<Rightarrow> (error + 'a) \<times> world) \<Rightarrow> nat \<Rightarrow> world \<Rightarrow> (error + 'a) list \<times> world" where
  "attempts body 0 w = ([], w)"
| "attempts body (Suc n) w =
     (case body w of (r, w1) \<Rightarrow> (case attempts body n w1 of (rs, w2) \<Rightarrow> (r # rs, w2)))"

text \<open>
  The retry contract of a function \<open>f\<close> (its \<open>retry\<close> argument first) with respect to
  its body. When \<open>k \<le> 3\<close> executions of the body fail with the errors \<open>es\<close> and the
  next one returns \<open>v\<close>, the call \<open>f 0\<close> returns \<open>v\<close> and leaves the world that exactly
  these \<open>k + 1\<close> executions leave. When four executions in a row fail, \<open>f 0\<close> throws
  the error of the fourth and leaves the world that exactly these four leave.
\<close>

definition bounded_retry ::
  "(int \<Rightarrow> world \<Rightarrow> (error + 'a) \<times> world) \<Rightarrow> (world \<Rightarrow> (error + 'a) \<times> world) \<Rightarrow> bool" where
  "bounded_retry f body \<longleftrightarrow>
     (\<forall>w k es v w'.
         k \<le> 3 \<and> length es = k \<and> attempts body (Suc k) w = (map Inl es @ [Inr v], w')
         \<longrightarrow> f 0 w = (Inr v, w'))
     \<and> (\<forall>w es w'.
         length es = 4 \<and> attempts body 4 w = (map Inl es, w')
         \<longrightarrow> f 0 w = (Inl (last es), w'))"

subsection \<open>Trees and requests\<close>

text \<open>A tree with at least one season in which every season has at least one episode.\<close>

definition populated :: "ItemSeriesSeasonStream list \<Rightarrow> bool" where
  "populated tree \<longleftrightarrow> tree \<noteq> [] \<and> (\<forall>s \<in> set tree. ss_episodes s \<noteq> [])"

text \<open>
  The effective state as the specification words it: the first season and its first
  episode when the requested season number is absent from the tree; the requested
  season and its first episode when the season is present and the requested episode
  number is absent within it; the requested state when both are present. The season
  with a given number is the first one in the tree that has it.
\<close>

definition spec_effective_state :: "ItemSeriesSeasonStream list \<Rightarrow> SwitchState \<Rightarrow> SwitchState" where
  "spec_effective_state tree st =
     (if season st \<notin> set (map (\<lambda>s. Some (ss_number s)) tree)
      then \<lparr>season = Some (ss_number (hd tree)),
            episode = Some (es_number (hd (ss_episodes (hd tree))))\<rparr>
      else let s = hd (filter (\<lambda>s. Some (ss_number s) = season st) tree)
           in if episode st \<notin> set (map (\<lambda>e. Some (es_number e)) (ss_episodes s))
              then \<lparr>season = season st, episode = Some (es_number (hd (ss_episodes s)))\<rparr>
              else st)"

text \<open>A request for the stream of one episode: a post with the action \<open>get_stream\<close>.\<close>

definition is_stream_fetch :: "request \<Rightarrow> bool" where
  "is_stream_fetch r =
     (case r of Post url params \<Rightarrow> (''action'', Str ''get_stream'') \<in> set params | _ \<Rightarrow> False)"

definition stream_fetches :: "world \<Rightarrow> request list" where
  "stream_fetches w = filter is_stream_fetch (requests w)"

text \<open>The streams in the leaves of a tree, and the streams that a response carries.\<close>

definition leaf_streams :: "ItemSeriesSeasonStream list \<Rightarrow> Stream list" where
  "leaf_streams tree = concat (map (\<lambda>s. List.map_filter es_stream (ss_episodes s)) tree)"

definition response_streams :: "FetchSeriesTranslatorResponse \<Rightarrow> Stream list" where
  "response_streams r =
     (case next r of None \<Rightarrow> [] | Some n \<Rightarrow> [n_stream n])
     @ (case initial r of None \<Rightarrow> [] | Some tree \<Rightarrow> leaf_streams tree)"

text \<open>
  A movie item has one stream slot per translator, in the order of its translators, as
  \<open>fetchItemMovie\<close> builds it.
\<close>

definition movie_slots :: "ItemMovie \<Rightarrow> bool" where
  "movie_slots item \<longleftrightarrow> map ms_translatorId (m_streams item) = map t_id (m_translators item)"

text \<open>
  The errors of the operations that one attempt of \<open>fetchStreamDetails\<close> started: that of
  the thumbnail fetch and those of the size fetches.
\<close>

definition rejections :: "(error + 'a) \<times> (error + 'b) list \<Rightarrow> error set" where
  "rejections tp = {e. fst tp = Inl e} \<union> {e. Inl e \<in> set (snd tp)}"

section \<open>Example data\<close>

text \<open>
  A provider whose AJAX endpoint rejects every post until \<open>n\<close> requests have been
  issued and answers with success from then on, and whose \<open>HEAD\<close> of the url \<open>bad\<close>
  always fails. The stream parser yields \<open>stream_x\<close>, the season parser yields
  \<open>seasons_52\<close>, whose provider order is not the numeric one.
\<close>

definition stream_x :: Stream where
  "stream_x =
     \<lparr>st_id = 7,
      st_qualities = [\<lparr>q_id = 1, q_downloadUrl = ''/v/360.mp4''\<rparr>,
                      \<lparr>q_id = 2, q_downloadUrl = ''/v/720.mp4''\<rparr>],
      st_thumbnailsUrl = ''/t/7''\<rparr>"

definition stream_y :: Stream where
  "stream_y = \<lparr>st_id = 8, st_qualities = [], st_thumbnailsUrl = ''/t/8''\<rparr>"

definition seasons_52 :: "Season list" where
  "seasons_52 =
     [\<lparr>s_number = 5, s_title = ''Season 5'',
       s_episodes = [\<lparr>e_number = 4, e_title = ''Episode 4''\<rparr>,
                     \<lparr>e_number = 1, e_title = ''Episode 1''\<rparr>]\<rparr>,
      \<lparr>s_number = 2, s_title = ''Season 2'',
       s_episodes = [\<lparr>e_number = 10, e_title = ''Episode 10''\<rparr>,
                     \<lparr>e_number = 11, e_title = ''Episode 11''\<rparr>]\<rparr>]"

definition response_ok :: StreamResponse where
  "response_ok =
     \<lparr>r_success = True, r_message = None, r_seasons = ''<ul/>'', r_episodes = ''<ul/>'',
      r_payload = ''{}''\<rparr>"

definition translators_12 :: "Translator list" where
  "translators_12 =
     [\<lparr>t_id = 1, t_isCamrip = False, t_isAds = False, t_isDirector = False\<rparr>,
      \<lparr>t_id = 2, t_isCamrip = False, t_isAds = True, t_isDirector = False\<rparr>]"

definition env_ex :: "nat \<Rightarrow> string \<Rightarrow> env" where
  "env_ex n bad =
     \<lparr>net_post = (\<lambda>h url params.
                    if length h < n then Inl (TransportError ''timeout'') else Inr response_ok),
      net_get = (\<lambda>h url. Inr ''sheet''),
      net_head = (\<lambda>h url.
                    if url = bad then Inl (TransportError ''timeout'')
                    else Inr [''content-length'' \<mapsto> ''1024'']),
      net_html_get = (\<lambda>h url params. Inr ''<html/>''),
      parseStream = (\<lambda>data. Inr stream_x),
      parseStreamSeasons = (\<lambda>a b. Inr seasons_52),
      parseItemDocument = (\<lambda>doc fullId.
                    Inr \<lparr>b_id = f_id fullId, b_favsId = ''f'', b_translators = translators_12,
                         b_ogType = ''video.movie'', b_details = doc\<rparr>),
      parseItemDocumentEpisodes = (\<lambda>doc. Inr ''info''),
      parseSearchDocument = (\<lambda>doc. Inr []),
      bytesToStr = (\<lambda>n. ''1 KB''),
      Number = (\<lambda>t. 1024)\<rparr>"

definition world0 :: world where
  "world0 =
     \<lparr>requests = [], cache_item = Map.empty, cache_movie = Map.empty,
      cache_size = Map.empty, cache_thumbnail = Map.empty\<rparr>"

text \<open>
  A tree with the seasons 2, 3 and 5, the episodes 10 and 11 under season 2, and one
  resolved leaf: season 3, episode 1 holds \<open>stream_y\<close>.
\<close>

definition tree_235 :: "ItemSeriesSeasonStream list" where
  "tree_235 =
     [\<lparr>ss_number = 2, ss_title = ''Season 2'',
       ss_episodes = [\<lparr>es_number = 10, es_title = ''Episode 10'', es_stream = None\<rparr>,
                      \<lparr>es_number = 11, es_title = ''Episode 11'', es_stream = None\<rparr>]\<rparr>,
      \<lparr>ss_number = 3, ss_title = ''Season 3'',
       ss_episodes = [\<lparr>es_number = 1, es_title = ''Episode 1'', es_stream = Some stream_y\<rparr>]\<rparr>,
      \<lparr>ss_number = 5, ss_title = ''Season 5'',
       ss_episodes = [\<lparr>es_number = 4, es_title = ''Episode 4'', es_stream = None\<rparr>]\<rparr>]"

text \<open>A series whose translator 1 has the tree above and whose translator 2 is unfetched.\<close>

definition series_ex :: ItemSeries where
  "series_ex =
     \<lparr>i_id = 40, i_favsId = ''f'', i_translators = translators_12,
      i_ogType = ''video.tv_series'', i_details = ''d'', i_itemType = ''series'',
      i_episodesInfo = ''info'',
      i_streams = [\<lparr>sr_translatorId = 1, sr_seasons = Some tree_235\<rparr>,
                   \<lparr>sr_translatorId = 2, sr_seasons = None\<rparr>]\<rparr>"

definition switch_ex :: "int \<Rightarrow> int \<Rightarrow> int \<Rightarrow> FetchSeriesTranslatorArgs" where
  "switch_ex translatorId s e =
     \<lparr>ta_item = series_ex, ta_translatorId = translatorId,
      ta_state = \<lparr>season = Some s, episode = Some e\<rparr>\<rparr>"

text \<open>A movie whose translator 2 has a stream and whose translator 1 has none.\<close>

definition movie_ex :: ItemMovie where
  "movie_ex =
     \<lparr>m_id = 41, m_favsId = ''f'', m_translators = translators_12,
      m_ogType = ''video.movie'', m_details = ''d'', m_itemType = ''movie'',
      m_streams = [\<lparr>ms_translatorId = 1, ms_stream = None\<rparr>,
                   \<lparr>ms_translatorId = 2, ms_stream = Some stream_y\<rparr>]\<rparr>"

text \<open>
  The post that \<open>fetchSeriesStream\<close> issues for the series above, and the response of a
  switch that lands on season 2, episode 10 with a freshly fetched stream.
\<close>

definition stream_request :: "int \<Rightarrow> int \<Rightarrow> int \<Rightarrow> request" where
  "stream_request translatorId s e =
     Post ''/ajax/get_cdn_series/''
       [(''id'', Num 40), (''translator_id'', Num translatorId), (''favs'', Str ''f''),
        (''season'', Num s), (''episode'', Num e), (''action'', Str ''get_stream'')]"

definition response_2_10 :: FetchSeriesTranslatorResponse where
  "response_2_10 =
     \<lparr>stateTo = \<lparr>season = Some 2, episode = Some 10\<rparr>, initial = None,
      next = Some \<lparr>n_stream = stream_x,
                   n_streamFor = \<lparr>season = Some 2, episode = Some 10\<rparr>\<rparr>\<rparr>"

text \<open>The response of a switch that lands on the resolved leaf of \<open>tree_235\<close>.\<close>

definition response_3_1 :: FetchSeriesTranslatorResponse where
  "response_3_1 =
     \<lparr>stateTo = \<lparr>season = Some 3, episode = Some 1\<rparr>, initial = None, next = None\<rparr>"

text \<open>
  Arguments for the series above: an episode-list fetch with the given hints, the stream
  fetch of one episode, and the details of \<open>stream_x\<close>.
\<close>

definition episodes_args :: "int option \<Rightarrow> int option \<Rightarrow> FetchSeriesEpisodesStreamArgs" where
  "episodes_args s e =
     \<lparr>ea_id = 40, ea_translatorId = 2, ea_favsId = ''f'', ea_season = s, ea_episode = e\<rparr>"

definition leaf_args :: "int \<Rightarrow> int \<Rightarrow> FetchSeriesStreamArgs" where
  "leaf_args s e =
     \<lparr>fa_id = 40, fa_translatorId = 1, fa_favsId = ''f'', fa_season = Some s,
      fa_episode = Some e\<rparr>"

definition details_ex :: FetchStreamDetailsArgs where
  "details_ex = \<lparr>da_stream = stream_x\<rparr>"

lemmas example_defs =
  switch_ex_def series_ex_def tree_235_def env_ex_def world0_def response_ok_def

section \<open>The retry loop\<close>

declare retry_loop.simps [simp del]
declare fetchSearch.simps [simp del]
declare fetchItemMovie.simps [simp del]
declare fetchItemSeries.simps [simp del]
declare fetchItem.simps [simp del]
declare fetchStreamDownloadSize.simps [simp del]
declare fetchStreamThumbnails.simps [simp del]
declare fetchStreamDetails.simps [simp del]
declare fetchMovieStream.simps [simp del]
declare fetchSeriesStream.simps [simp del]
declare fetchSeriesEpisodesStream.simps [simp del]
declare fetchMovieTranslator.simps [simp del]
declare fetchSeriesTranslator.simps [simp del]
declare fetchTranslator.simps [simp del]

lemma fetchSearch_loop:
  "fetchSearch env args retry w = retry_loop (fetchSearch_body env args) retry w"
  by (induction env args retry w rule: fetchSearch.induct)
     (subst fetchSearch.simps, subst retry_loop.simps, auto split: prod.splits sum.splits)

lemma fetchItemMovie_loop:
  "fetchItemMovie env args retry w = retry_loop (fetchItemMovie_body env args) retry w"
  by (induction env args retry w rule: fetchItemMovie.induct)
     (subst fetchItemMovie.simps, subst retry_loop.simps, auto split: prod.splits sum.splits)

lemma fetchItemSeries_loop:
  "fetchItemSeries env args retry w = retry_loop (fetchItemSeries_body env args) retry w"
  by (induction env args retry w rule: fetchItemSeries.induct)
     (subst fetchItemSeries.simps, subst retry_loop.simps, auto split: prod.splits sum.splits)

lemma fetchItem_loop:
  "fetchItem env args retry w = retry_loop (fetchItem_body env args) retry w"
  by (induction env args retry w rule: fetchItem.induct)
     (subst fetchItem.simps, subst retry_loop.simps, auto split: prod.splits sum.splits)

lemma fetchStreamDownloadSize_loop:
  "fetchStreamDownloadSize env args retry w = retry_loop (fetchStreamDownloadSize_body env args) retry w"
  by (induction env args retry w rule: fetchStreamDownloadSize.induct)
     (subst fetchStreamDownloadSize.simps, subst retry_loop.simps, auto split: prod.splits sum.splits)

lemma fetchStreamThumbnails_loop:
  "fetchStreamThumbnails env args retry w = retry_loop (fetchStreamThumbnails_body env args) retry w"
  by (induction env args retry w rule: fetchStreamThumbnails.induct)
     (subst fetchStreamThumbnails.simps, subst retry_loop.simps, auto split: prod.splits sum.splits)

lemma fetchStreamDetails_loop:
  "fetchStreamDetails env args retry w = retry_loop (fetchStreamDetails_body env args) retry w"
  by (induction env args retry w rule: fetchStreamDetails.induct)
     (subst fetchStreamDetails.simps, subst retry_loop.simps, auto split: prod.splits sum.splits)

lemma fetchMovieStream_loop:
  "fetchMovieStream env args retry w = retry_loop (fetchMovieStream_body env args) retry w"
  by (induction env args retry w rule: fetchMovieStream.induct)
     (subst fetchMovieStream.simps, subst retry_loop.simps, auto split: prod.splits sum.splits)

lemma fetchSeriesStream_loop:
  "fetchSeriesStream env args retry w = retry_loop (fetchSeriesStream_body env args) retry w"
  by (induction env args retry w rule: fetchSeriesStream.induct)
     (subst fetchSeriesStream.simps, subst retry_loop.simps, auto split: prod.splits sum.splits)

lemma fetchSeriesEpisodesStream_loop:
  "fetchSeriesEpisodesStream env args retry w = retry_loop (fetchSeriesEpisodesStream_body env args) retry w"
  by (induction env args retry w rule: fetchSeriesEpisodesStream.induct)
     (subst fetchSeriesEpisodesStream.simps, subst retry_loop.simps, auto split: prod.splits sum.splits)

lemma fetchMovieTranslator_loop:
  "fetchMovieTranslator env args retry w = retry_loop (fetchMovieTranslator_body env args) retry w"
  by (induction env args retry w rule: fetchMovieTranslator.induct)
     (subst fetchMovieTranslator.simps, subst retry_loop.simps, auto split: prod.splits sum.splits)

lemma fetchSeriesTranslator_loop:
  "fetchSeriesTranslator env args retry w = retry_loop (fetchSeriesTranslator_body env args) retry w"
  by (induction env args retry w rule: fetchSeriesTranslator.induct)
     (subst fetchSeriesTranslator.simps, subst retry_loop.simps, auto split: prod.splits sum.splits)

lemma fetchTranslator_loop:
  "fetchTranslator env args retry w = retry_loop (fetchTranslator_body env args) retry w"
  by (induction env args retry w rule: fetchTranslator.induct)
     (subst fetchTranslator.simps, subst retry_loop.simps, auto split: prod.splits sum.splits)

lemma retry_loop_Inr: "body w = (Inr v, w') \<Longrightarrow> retry_loop body retry w = (Inr v, w')"
  by (subst retry_loop.simps) simp

lemma retry_loop_Inl_more:
  "body w = (Inl err, w') \<Longrightarrow> retry < 3
   \<Longrightarrow> retry_loop body retry w = retry_loop body (retry + 1) w'"
  by (subst retry_loop.simps) simp

lemma retry_loop_Inl_last:
  "body w = (Inl err, w') \<Longrightarrow> \<not> retry < 3 \<Longrightarrow> retry_loop body retry w = (Inl err, w')"
  by (subst retry_loop.simps) simp

text \<open>A value that the loop returns is the value of some execution of the body.\<close>

lemma retry_loop_returns:
  "retry_loop body retry w = (Inr r, w') \<Longrightarrow> \<exists>w0. body w0 = (Inr r, w')"
proof (induction body retry w rule: retry_loop.induct)
  case (1 body retry w)
  obtain res w1 where b: "body w = (res, w1)" by (cases "body w")
  show ?case
  proof (cases res)
    case (Inr v)
    with b "1.prems" show ?thesis by (auto simp: retry_loop_Inr)
  next
    case (Inl err)
    show ?thesis
    proof (cases "retry < 3")
      case True
      with b Inl "1.prems" have "retry_loop body (retry + 1) w1 = (Inr r, w')"
        by (simp add: retry_loop_Inl_more)
      with "1.IH" b Inl True show ?thesis by simp
    next
      case False
      with b Inl "1.prems" show ?thesis by (simp add: retry_loop_Inl_last)
    qed
  qed
qed

text \<open>The outcome of the loop is the outcome of its last execution of the body.\<close>

lemma retry_loop_last: "\<exists>w0. retry_loop body retry w = body w0"
proof (induction body retry w rule: retry_loop.induct)
  case (1 body retry w)
  obtain res w1 where b: "body w = (res, w1)" by (cases "body w")
  show ?case
  proof (cases res)
    case (Inr v)
    with b have "retry_loop body retry w = body w" by (simp add: retry_loop_Inr)
    then show ?thesis by blast
  next
    case (Inl err)
    show ?thesis
    proof (cases "retry < 3")
      case True
      with b Inl have "retry_loop body retry w = retry_loop body (retry + 1) w1"
        by (simp add: retry_loop_Inl_more)
      with "1.IH" [OF b [symmetric] Inl True] show ?thesis by simp
    next
      case False
      with b Inl have "retry_loop body retry w = body w" by (simp add: retry_loop_Inl_last)
      then show ?thesis by blast
    qed
  qed
qed

lemma snd_case_result:
  "snd (case x of (Inl err, w2) \<Rightarrow> (Inl err, w2) | (Inr v, w2) \<Rightarrow> (Inr (f v), w2)) = snd x"
  by (auto split: prod.splits sum.splits)

text \<open>An observation of the world that no execution of the body changes.\<close>

lemma retry_loop_invariant:
  assumes "\<And>w. f (snd (body w)) = f w"
  shows "f (snd (retry_loop body retry w)) = f w"
  using assms
proof (induction body retry w rule: retry_loop.induct)
  case (1 body retry w)
  obtain res w1 where b: "body w = (res, w1)" by (cases "body w")
  from "1.prems" [of w] b have w1: "f w1 = f w" by simp
  show ?case
  proof (cases res)
    case (Inr v)
    with b w1 show ?thesis by (simp add: retry_loop_Inr)
  next
    case (Inl err)
    show ?thesis
    proof (cases "retry < 3")
      case True
      from "1.IH" [OF b [symmetric] Inl True "1.prems"]
      have "f (snd (retry_loop body (retry + 1) w1)) = f w1" by simp
      with b Inl True w1 show ?thesis by (simp add: retry_loop_Inl_more)
    next
      case False
      with b Inl w1 show ?thesis by (simp add: retry_loop_Inl_last)
    qed
  qed
qed

text \<open>\<open>k\<close> failures and then a success, from any \<open>retry\<close> that leaves room for them.\<close>

lemma retry_loop_attempts_success:
  "attempts body (Suc k) w = (map Inl es @ [Inr v], w') \<Longrightarrow> length es = k \<Longrightarrow>
   retry + int k \<le> 3 \<Longrightarrow> retry_loop body retry w = (Inr v, w')"
proof (induction k arbitrary: w es retry)
  case 0
  then show ?case by (auto simp: retry_loop_Inr split: prod.splits)
next
  case (Suc k)
  obtain r w1 where b: "body w = (r, w1)" by (cases "body w")
  obtain rs w2 where a: "attempts body (Suc k) w1 = (rs, w2)"
    by (cases "attempts body (Suc k) w1")
  from Suc.prems(2) obtain e es' where es: "es = e # es'" "length es' = k" by (cases es) auto
  from Suc.prems(1) b a es
  have r: "r = Inl e" and rs: "rs = map Inl es' @ [Inr v]" and w2: "w2 = w'" by auto
  from Suc.prems(3) have lt: "retry < 3" and le: "(retry + 1) + int k \<le> 3" by auto
  from Suc.IH [OF _ es(2) le, of w1] a rs w2
  have "retry_loop body (retry + 1) w1 = (Inr v, w')" by simp
  with b r lt show ?case by (simp add: retry_loop_Inl_more)
qed

lemma retry_loop_attempts_failure:
  "attempts body (Suc k) w = (map Inl es, w') \<Longrightarrow> length es = Suc k \<Longrightarrow>
   retry + int k = 3 \<Longrightarrow> retry_loop body retry w = (Inl (last es), w')"
proof (induction k arbitrary: w es retry)
  case 0
  then obtain e where "es = [e]" by (cases es) auto
  with 0 show ?case by (auto simp: retry_loop_Inl_last split: prod.splits)
next
  case (Suc k)
  obtain r w1 where b: "body w = (r, w1)" by (cases "body w")
  obtain rs w2 where a: "attempts body (Suc k) w1 = (rs, w2)"
    by (cases "attempts body (Suc k) w1")
  from Suc.prems(2) obtain e es' where es: "es = e # es'" "length es' = Suc k"
    by (cases es) auto
  from Suc.prems(1) b a es
  have r: "r = Inl e" and rs: "rs = map Inl es'" and w2: "w2 = w'" by auto
  from Suc.prems(3) have lt: "retry < 3" and le: "(retry + 1) + int k = 3" by auto
  from Suc.IH [OF _ es(2) le, of w1] a rs w2
  have "retry_loop body (retry + 1) w1 = (Inl (last es'), w')" by simp
  moreover from es have "last es = last es'" by auto
  ultimately show ?case using b r lt by (simp add: retry_loop_Inl_more)
qed

lemma bounded_retry_loop: "bounded_retry (retry_loop body) body"
  unfolding bounded_retry_def
proof (intro conjI allI impI)
  fix w k es v w'
  assume "k \<le> 3 \<and> length es = k \<and> attempts body (Suc k) w = (map Inl es @ [Inr v], w')"
  then show "retry_loop body 0 w = (Inr v, w')"
    by (intro retry_loop_attempts_success [where k = k and es = es]) auto
next
  fix w es w'
  assume "length es = 4 \<and> attempts body 4 w = (map Inl es, w')"
  then show "retry_loop body 0 w = (Inl (last es), w')"
    by (intro retry_loop_attempts_failure [where k = 3]) (auto simp: numeral_eq_Suc)
qed

section \<open>Clamping in \<open>fetchSeriesTranslator\<close>\<close>

lemma find_Some_set: "find P xs = Some x \<Longrightarrow> x \<in> set xs \<and> P x"
  by (induction xs) (auto split: if_splits)

lemma find_hd_filter: "find P xs = Some x \<Longrightarrow> hd (filter P xs) = x"
  by (induction xs) (auto split: if_splits)

lemma clamp_effective_state:
  assumes "populated tree"
  shows "\<exists>ep. fetchSeriesTranslator_clamp tree st = Inr (spec_effective_state tree st, ep)"
proof (cases "find (\<lambda>s. Some (ss_number s) = season st) tree")
  case None
  then have absent: "season st \<notin> set (map (\<lambda>s. Some (ss_number s)) tree)"
    by (auto simp: find_None_iff)
  from assms obtain s ss where tree: "tree = s # ss"
    by (cases tree) (auto simp: populated_def)
  with assms obtain e es where eps: "ss_episodes s = e # es"
    by (cases "ss_episodes s") (auto simp: populated_def)
  from None absent tree eps show ?thesis
    by (simp add: fetchSeriesTranslator_clamp_def spec_effective_state_def)
next
  case (Some s)
  then have present: "season st \<in> set (map (\<lambda>s. Some (ss_number s)) tree)"
    by (force dest: find_Some_set)
  from Some have s: "hd (filter (\<lambda>s. Some (ss_number s) = season st) tree) = s"
    by (rule find_hd_filter)
  from Some have "s \<in> set tree" by (auto dest: find_Some_set)
  with assms obtain e es where eps: "ss_episodes s = e # es"
    by (cases "ss_episodes s") (auto simp: populated_def)
  show ?thesis
  proof (cases "find (\<lambda>e. Some (es_number e) = episode st) (ss_episodes s)")
    case None
    then have "episode st \<notin> set (map (\<lambda>e. Some (es_number e)) (ss_episodes s))"
      by (auto simp: find_None_iff)
    with None Some present s eps
    have "fetchSeriesTranslator_clamp tree st = Inr (spec_effective_state tree st, e)"
      by (simp add: fetchSeriesTranslator_clamp_def spec_effective_state_def Let_def)
    then show ?thesis by blast
  next
    case (Some e')
    then have "episode st \<in> set (map (\<lambda>e. Some (es_number e)) (ss_episodes s))"
      by (force dest: find_Some_set)
    with Some \<open>find _ tree = Some s\<close> present s show ?thesis
      by (simp add: fetchSeriesTranslator_clamp_def spec_effective_state_def Let_def)
  qed
qed

lemma clamp_names_leaf:
  assumes "fetchSeriesTranslator_clamp tree st = Inr (st', ep)"
  shows "\<exists>s \<in> set tree. ep \<in> set (ss_episodes s)
            \<and> season st' = Some (ss_number s) \<and> episode st' = Some (es_number ep)"
proof (cases "find (\<lambda>s. Some (ss_number s) = season st) tree")
  case None
  with assms show ?thesis
    by (auto simp: fetchSeriesTranslator_clamp_def split: list.splits)
next
  case (Some s)
  then have s: "s \<in> set tree" "Some (ss_number s) = season st"
    by (auto dest: find_Some_set)
  show ?thesis
  proof (cases "find (\<lambda>e. Some (es_number e) = episode st) (ss_episodes s)")
    case None
    with Some assms s show ?thesis
      by (cases "ss_episodes s")
         (auto simp: fetchSeriesTranslator_clamp_def intro!: bexI [of _ s])
  next
    case (Some e)
    then have "e \<in> set (ss_episodes s)" "Some (es_number e) = episode st"
      by (auto dest: find_Some_set)
    with Some \<open>find _ tree = Some s\<close> assms s show ?thesis
      by (auto simp: fetchSeriesTranslator_clamp_def intro!: bexI [of _ s])
  qed
qed

lemma fetchSeriesTranslator_body_Inr:
  assumes "fetchSeriesTranslator_body env args w = (Inr r, w')"
  shows "\<exists>tree w1 ep.
           fetchSeriesTranslator_seasons env args w = (Inr (tree, initial r), w1)
           \<and> fetchSeriesTranslator_clamp tree (ta_state args) = Inr (stateTo r, ep)
           \<and> (next r = None \<longleftrightarrow> es_stream ep \<noteq> None)"
  using assms
  by (auto simp: fetchSeriesTranslator_body_def split: prod.splits sum.splits option.splits)

lemma fetchSeriesTranslator_seasons_Inr:
  assumes "fetchSeriesTranslator_seasons env args w = (Inr (tree, init), w1)"
    and "find (\<lambda>s. sr_translatorId s = ta_translatorId args) (i_streams (ta_item args))
           = Some found"
  shows "(sr_seasons found = Some tree \<and> init = None \<and> w1 = w)
         \<or> (sr_seasons found = None \<and> init = Some tree)"
  using assms
  by (auto simp: fetchSeriesTranslator_seasons_def split: prod.splits sum.splits option.splits)

text \<open>
  Whatever \<open>fetchSeriesTranslator\<close> returns, its \<open>stateTo\<close> is the state that the search
  computes on the tree of the target translator, and \<open>next\<close> is absent exactly when the
  episode found holds a stream.
\<close>

lemma fetchSeriesTranslator_returns:
  assumes "fetchSeriesTranslator env args retry w = (Inr r, w')"
    and "find (\<lambda>s. sr_translatorId s = ta_translatorId args) (i_streams (ta_item args))
           = Some found"
    and "sr_seasons found = Some tree \<or> sr_seasons found = None \<and> initial r = Some tree"
  shows "\<exists>ep. fetchSeriesTranslator_clamp tree (ta_state args) = Inr (stateTo r, ep)
              \<and> (next r = None \<longleftrightarrow> es_stream ep \<noteq> None)"
proof -
  from assms(1) obtain w0 where "fetchSeriesTranslator_body env args w0 = (Inr r, w')"
    by (auto simp: fetchSeriesTranslator_loop dest: retry_loop_returns)
  then obtain tree' w1 ep where
    s: "fetchSeriesTranslator_seasons env args w0 = (Inr (tree', initial r), w1)" and
    c: "fetchSeriesTranslator_clamp tree' (ta_state args) = Inr (stateTo r, ep)" and
    n: "next r = None \<longleftrightarrow> es_stream ep \<noteq> None"
    by (blast dest: fetchSeriesTranslator_body_Inr)
  from fetchSeriesTranslator_seasons_Inr [OF s assms(2)] assms(3) have "tree' = tree" by auto
  with c n show ?thesis by auto
qed

text \<open>
  C1. On a tree with at least one season in which every season has at least one
  episode, the search step of \<open>fetchSeriesTranslator\<close> does not fail and yields the
  effective state of the specification: the first season and its first episode when the
  requested season is absent, the requested season and its first episode when only the
  requested episode is absent, the requested state otherwise. Every result that
  \<open>fetchSeriesTranslator\<close> returns for an item whose \<open>streams\<close> hold an entry for the target
  translator carries that state as \<open>stateTo\<close>, whether the tree was known already or was
  fetched by the call (and is then the \<open>initial\<close> of the result).
\<close>

theorem fetchSeriesTranslator_clamping:
  assumes "populated tree"
  shows "(\<exists>ep. fetchSeriesTranslator_clamp tree st = Inr (spec_effective_state tree st, ep))
    \<and> (\<forall>env args retry w r w' found.
          find (\<lambda>s. sr_translatorId s = ta_translatorId args) (i_streams (ta_item args))
            = Some found
          \<and> (sr_seasons found = Some tree \<or> sr_seasons found = None \<and> initial r = Some tree)
          \<and> ta_state args = st
          \<and> fetchSeriesTranslator env args retry w = (Inr r, w')
          \<longrightarrow> stateTo r = spec_effective_state tree st)"
proof (intro conjI allI impI)
  show "\<exists>ep. fetchSeriesTranslator_clamp tree st = Inr (spec_effective_state tree st, ep)"
    using assms by (rule clamp_effective_state)
next
  fix env args retry w r w' found
  assume h: "find (\<lambda>s. sr_translatorId s = ta_translatorId args) (i_streams (ta_item args))
            = Some found
          \<and> (sr_seasons found = Some tree \<or> sr_seasons found = None \<and> initial r = Some tree)
          \<and> ta_state args = st
          \<and> fetchSeriesTranslator env args retry w = (Inr r, w')"
  then obtain ep where "fetchSeriesTranslator_clamp tree st = Inr (stateTo r, ep)"
    using fetchSeriesTranslator_returns [of env args retry w r w' found tree] by auto
  moreover from assms obtain ep' where
    "fetchSeriesTranslator_clamp tree st = Inr (spec_effective_state tree st, ep')"
    by (blast dest: clamp_effective_state)
  ultimately show "stateTo r = spec_effective_state tree st" by simp
qed

lemma switch_99_run:
  "fetchSeriesTranslator (env_ex 0 []) (switch_ex 1 99 7) 0 world0
     = (Inr response_2_10, world0\<lparr>requests := [stream_request 1 2 10]\<rparr>)"
  by (simp add: fetchSeriesTranslator.simps fetchSeriesTranslator_body_def
        fetchSeriesTranslator_seasons_def fetchSeriesTranslator_clamp_def
        fetchSeriesStream.simps fetchSeriesStream_body_def fetchSeriesStream_params_def
        ajax_post_def num_or_undefined_def stream_request_def response_2_10_def example_defs)

lemma populated_tree_235: "populated tree_235"
  by (simp add: populated_def tree_235_def)

lemma find_translator_1:
  "find (\<lambda>s. sr_translatorId s = ta_translatorId (switch_ex 1 a b))
     (i_streams (ta_item (switch_ex 1 a b)))
   = Some \<lparr>sr_translatorId = 1, sr_seasons = Some tree_235\<rparr>"
  by (simp add: switch_ex_def series_ex_def)

theorem fetchSeriesTranslator_clamping_witness:
  "populated tree_235
   \<and> fetchSeriesTranslator (env_ex 0 []) (switch_ex 1 99 7) 0 world0
       = (Inr response_2_10, world0\<lparr>requests := [stream_request 1 2 10]\<rparr>)
   \<and> stateTo response_2_10 = spec_effective_state tree_235 \<lparr>season = Some 99, episode = Some 7\<rparr>
   \<and> stateTo response_2_10 = \<lparr>season = Some 2, episode = Some 10\<rparr>"
proof -
  note p = populated_tree_235 and f = find_translator_1 [of 99 7] and run = switch_99_run
  have s: "ta_state (switch_ex 1 99 7) = \<lparr>season = Some 99, episode = Some 7\<rparr>"
    by (simp add: switch_ex_def)
  from fetchSeriesTranslator_clamping [OF p, of "\<lparr>season = Some 99, episode = Some 7\<rparr>"]
  have "stateTo response_2_10
          = spec_effective_state tree_235 \<lparr>season = Some 99, episode = Some 7\<rparr>"
    using f s run by fastforce
  moreover have "stateTo response_2_10 = \<lparr>season = Some 2, episode = Some 10\<rparr>"
    by (simp add: response_2_10_def)
  ultimately show ?thesis using p run by simp
qed

text \<open>
  C2. On a tree with at least one season in which every season has at least one
  episode, the search step of \<open>fetchSeriesTranslator\<close> does not fail, and the season and
  episode numbers that it leaves in \<open>stateTo\<close> are those of a season of the tree and of
  the episode of that season whose \<open>stream\<close> slot the function reads next. The same holds
  for the \<open>stateTo\<close> of every result that \<open>fetchSeriesTranslator\<close> returns.
\<close>

theorem clamped_target_is_leaf:
  assumes "populated tree"
  shows "(\<exists>st' ep. fetchSeriesTranslator_clamp tree st = Inr (st', ep)
            \<and> (\<exists>s \<in> set tree. ep \<in> set (ss_episodes s)
                  \<and> season st' = Some (ss_number s) \<and> episode st' = Some (es_number ep)))
    \<and> (\<forall>env args retry w r w' found.
          find (\<lambda>s. sr_translatorId s = ta_translatorId args) (i_streams (ta_item args))
            = Some found
          \<and> (sr_seasons found = Some tree \<or> sr_seasons found = None \<and> initial r = Some tree)
          \<and> fetchSeriesTranslator env args retry w = (Inr r, w')
          \<longrightarrow> (\<exists>s \<in> set tree. \<exists>ep \<in> set (ss_episodes s).
                 season (stateTo r) = Some (ss_number s)
                 \<and> episode (stateTo r) = Some (es_number ep)))"
proof (intro conjI allI impI)
  from assms obtain ep where
    c: "fetchSeriesTranslator_clamp tree st = Inr (spec_effective_state tree st, ep)"
    by (blast dest: clamp_effective_state)
  from clamp_names_leaf [OF c] c
  show "\<exists>st' ep. fetchSeriesTranslator_clamp tree st = Inr (st', ep)
            \<and> (\<exists>s \<in> set tree. ep \<in> set (ss_episodes s)
                  \<and> season st' = Some (ss_number s) \<and> episode st' = Some (es_number ep))"
    by blast
next
  fix env args retry w r w' found
  assume h: "find (\<lambda>s. sr_translatorId s = ta_translatorId args) (i_streams (ta_item args))
            = Some found
          \<and> (sr_seasons found = Some tree \<or> sr_seasons found = None \<and> initial r = Some tree)
          \<and> fetchSeriesTranslator env args retry w = (Inr r, w')"
  then obtain ep where
    "fetchSeriesTranslator_clamp tree (ta_state args) = Inr (stateTo r, ep)"
    using fetchSeriesTranslator_returns [of env args retry w r w' found tree] by auto
  from clamp_names_leaf [OF this]
  show "\<exists>s \<in> set tree. \<exists>ep \<in> set (ss_episodes s).
          season (stateTo r) = Some (ss_number s) \<and> episode (stateTo r) = Some (es_number ep)"
    by blast
qed

theorem clamped_target_is_leaf_witness:
  "populated tree_235
   \<and> fetchSeriesTranslator_clamp tree_235 \<lparr>season = Some 3, episode = Some 9\<rparr>
       = Inr (\<lparr>season = Some 3, episode = Some 1\<rparr>,
              \<lparr>es_number = 1, es_title = ''Episode 1'', es_stream = Some stream_y\<rparr>)
   \<and> (\<exists>st' ep. fetchSeriesTranslator_clamp tree_235 \<lparr>season = Some 3, episode = Some 9\<rparr>
                  = Inr (st', ep)
          \<and> (\<exists>s \<in> set tree_235. ep \<in> set (ss_episodes s)
                \<and> season st' = Some (ss_number s) \<and> episode st' = Some (es_number ep)))"
proof -
  have "fetchSeriesTranslator_clamp tree_235 \<lparr>season = Some 3, episode = Some 9\<rparr>
       = Inr (\<lparr>season = Some 3, episode = Some 1\<rparr>,
              \<lparr>es_number = 1, es_title = ''Episode 1'', es_stream = Some stream_y\<rparr>)"
    by (simp add: fetchSeriesTranslator_clamp_def tree_235_def)
  with populated_tree_235
    clamped_target_is_leaf [OF populated_tree_235, of "\<lparr>season = Some 3, episode = Some 9\<rparr>"]
  show ?thesis by blast
qed

section \<open>Leaf reuse\<close>

lemma fetchSeriesEpisodesStream_body_stream_fetches:
  "stream_fetches (snd (fetchSeriesEpisodesStream_body env args w)) = stream_fetches w"
  by (auto simp: fetchSeriesEpisodesStream_body_def fetchSeriesEpisodesStream_params_def
        ajax_post_def stream_fetches_def is_stream_fetch_def Let_def
        split: prod.splits sum.splits option.splits)

lemma fetchSeriesEpisodesStream_stream_fetches:
  "stream_fetches (snd (fetchSeriesEpisodesStream env args retry w)) = stream_fetches w"
  unfolding fetchSeriesEpisodesStream_loop
  by (rule retry_loop_invariant) (rule fetchSeriesEpisodesStream_body_stream_fetches)

text \<open>
  C4. When the episode that the search step of \<open>fetchSeriesTranslator\<close> lands on holds a
  stream, the call returns at its first attempt with \<open>next\<close> absent and the effective
  state as \<open>stateTo\<close>, and it issues no request for an episode stream: on a tree that was
  known already the world is unchanged, and on a tree that the call fetched the only
  requests are those of the episode list.
\<close>

theorem leaf_reuse_no_fetch:
  assumes "find (\<lambda>s. sr_translatorId s = ta_translatorId args) (i_streams (ta_item args))
             = Some found"
    and "sr_seasons found = Some tree \<and> init = None \<and> w1 = w
         \<or> sr_seasons found = None \<and> init = Some tree \<and> tree = tree_of res
           \<and> fetchSeriesEpisodesStream env
                \<lparr>ea_id = i_id (ta_item args), ea_translatorId = ta_translatorId args,
                 ea_favsId = i_favsId (ta_item args), ea_season = None, ea_episode = None\<rparr>
                0 w = (Inr res, w1)"
    and "fetchSeriesTranslator_clamp tree (ta_state args) = Inr (st, ep)"
    and "es_stream ep = Some s"
  shows "fetchSeriesTranslator env args retry w
           = (Inr \<lparr>stateTo = st, initial = init, next = None\<rparr>, w1)
         \<and> stream_fetches w1 = stream_fetches w
         \<and> (sr_seasons found \<noteq> None \<longrightarrow> w1 = w)"
proof -
  from assms(1,2) have s: "fetchSeriesTranslator_seasons env args w = (Inr (tree, init), w1)"
    by (auto simp: fetchSeriesTranslator_seasons_def)
  with assms(3,4) have "fetchSeriesTranslator_body env args w
      = (Inr \<lparr>stateTo = st, initial = init, next = None\<rparr>, w1)"
    by (simp add: fetchSeriesTranslator_body_def)
  then have "fetchSeriesTranslator env args retry w
      = (Inr \<lparr>stateTo = st, initial = init, next = None\<rparr>, w1)"
    by (simp add: fetchSeriesTranslator_loop retry_loop_Inr)
  moreover from assms(2) have "stream_fetches w1 = stream_fetches w"
  proof
    assume "sr_seasons found = Some tree \<and> init = None \<and> w1 = w"
    then show ?thesis by simp
  next
    assume "sr_seasons found = None \<and> init = Some tree \<and> tree = tree_of res
           \<and> fetchSeriesEpisodesStream env
                \<lparr>ea_id = i_id (ta_item args), ea_translatorId = ta_translatorId args,
                 ea_favsId = i_favsId (ta_item args), ea_season = None, ea_episode = None\<rparr>
                0 w = (Inr res, w1)"
    then have "w1 = snd (fetchSeriesEpisodesStream env
                \<lparr>ea_id = i_id (ta_item args), ea_translatorId = ta_translatorId args,
                 ea_favsId = i_favsId (ta_item args), ea_season = None, ea_episode = None\<rparr>
                0 w)" by simp
    then show ?thesis by (simp only: fetchSeriesEpisodesStream_stream_fetches)
  qed
  moreover from assms(2) have "sr_seasons found \<noteq> None \<longrightarrow> w1 = w" by auto
  ultimately show ?thesis by simp
qed

lemma clamp_3_1:
  "fetchSeriesTranslator_clamp tree_235 (ta_state (switch_ex 1 3 1))
     = Inr (\<lparr>season = Some 3, episode = Some 1\<rparr>,
            \<lparr>es_number = 1, es_title = ''Episode 1'', es_stream = Some stream_y\<rparr>)"
  by (simp add: fetchSeriesTranslator_clamp_def tree_235_def switch_ex_def)

theorem leaf_reuse_no_fetch_witness:
  "fetchSeriesTranslator_clamp tree_235 (ta_state (switch_ex 1 3 1))
     = Inr (\<lparr>season = Some 3, episode = Some 1\<rparr>,
            \<lparr>es_number = 1, es_title = ''Episode 1'', es_stream = Some stream_y\<rparr>)
   \<and> fetchSeriesTranslator (env_ex 0 []) (switch_ex 1 3 1) 0 world0 = (Inr response_3_1, world0)
   \<and> next response_3_1 = None
   \<and> stream_fetches world0 = []"
proof -
  have "fetchSeriesTranslator (env_ex 0 []) (switch_ex 1 3 1) 0 world0
      = (Inr \<lparr>stateTo = \<lparr>season = Some 3, episode = Some 1\<rparr>, initial = None, next = None\<rparr>,
         world0)"
    using leaf_reuse_no_fetch [OF find_translator_1 [of 3 1], of tree_235 None world0 world0
        undefined "env_ex 0 []" "\<lparr>season = Some 3, episode = Some 1\<rparr>"
        "\<lparr>es_number = 1, es_title = ''Episode 1'', es_stream = Some stream_y\<rparr>" stream_y 0]
      clamp_3_1
    by simp
  then show ?thesis
    using clamp_3_1 by (simp add: response_3_1_def stream_fetches_def world0_def)
qed

lemma leaf_stream_member:
  assumes "s \<in> set tree" "ep \<in> set (ss_episodes s)" "es_stream ep = Some x"
  shows "x \<in> set (leaf_streams tree)"
proof -
  from assms(2,3) have "x \<in> set (List.map_filter es_stream (ss_episodes s))"
    by (force simp: map_filter_def)
  with assms(1) show ?thesis by (auto simp: leaf_streams_def)
qed

text \<open>
  C5, as amended. When the episode that the search step lands on holds a stream, the
  call issues no request for an episode stream and returns with \<open>next\<close> absent. On a tree
  that was known already it issues no request at all and the response carries no stream:
  \<open>initial\<close> and \<open>next\<close> are both absent, and the existing stream stays in the item that
  the caller holds. On a tree that the call fetched, the response carries the stream of
  that episode inside \<open>initial\<close>.
\<close>

theorem leaf_reuse_result_streams:
  assumes "find (\<lambda>s. sr_translatorId s = ta_translatorId args) (i_streams (ta_item args))
             = Some found"
    and "sr_seasons found = Some tree \<and> init = None \<and> w1 = w
         \<or> sr_seasons found = None \<and> init = Some tree \<and> tree = tree_of res
           \<and> fetchSeriesEpisodesStream env
                \<lparr>ea_id = i_id (ta_item args), ea_translatorId = ta_translatorId args,
                 ea_favsId = i_favsId (ta_item args), ea_season = None, ea_episode = None\<rparr>
                0 w = (Inr res, w1)"
    and "fetchSeriesTranslator_clamp tree (ta_state args) = Inr (st, ep)"
    and "es_stream ep = Some x"
  shows "fetchSeriesTranslator env args retry w
           = (Inr \<lparr>stateTo = st, initial = init, next = None\<rparr>, w1)
         \<and> stream_fetches w1 = stream_fetches w
         \<and> (sr_seasons found = Some tree \<longrightarrow>
               w1 = w \<and> response_streams \<lparr>stateTo = st, initial = init, next = None\<rparr> = [])
         \<and> (sr_seasons found = None \<longrightarrow>
               x \<in> set (response_streams \<lparr>stateTo = st, initial = init, next = None\<rparr>))"
proof -
  let ?r = "\<lparr>stateTo = st, initial = init, next = None\<rparr>"
  from assms(1,2) have s: "fetchSeriesTranslator_seasons env args w = (Inr (tree, init), w1)"
    by (auto simp: fetchSeriesTranslator_seasons_def)
  with assms(3,4) have "fetchSeriesTranslator_body env args w = (Inr ?r, w1)"
    by (simp add: fetchSeriesTranslator_body_def)
  then have run: "fetchSeriesTranslator env args retry w = (Inr ?r, w1)"
    by (simp add: fetchSeriesTranslator_loop retry_loop_Inr)
  from assms(2) have sf: "stream_fetches w1 = stream_fetches w"
  proof
    assume "sr_seasons found = Some tree \<and> init = None \<and> w1 = w"
    then show ?thesis by simp
  next
    assume "sr_seasons found = None \<and> init = Some tree \<and> tree = tree_of res
           \<and> fetchSeriesEpisodesStream env
                \<lparr>ea_id = i_id (ta_item args), ea_translatorId = ta_translatorId args,
                 ea_favsId = i_favsId (ta_item args), ea_season = None, ea_episode = None\<rparr>
                0 w = (Inr res, w1)"
    then have "w1 = snd (fetchSeriesEpisodesStream env
                \<lparr>ea_id = i_id (ta_item args), ea_translatorId = ta_translatorId args,
                 ea_favsId = i_favsId (ta_item args), ea_season = None, ea_episode = None\<rparr>
                0 w)" by simp
    then show ?thesis by (simp only: fetchSeriesEpisodesStream_stream_fetches)
  qed
  from assms(2) have known:
    "sr_seasons found = Some tree \<longrightarrow> w1 = w \<and> response_streams ?r = []"
    by (auto simp: response_streams_def)
  from clamp_names_leaf [OF assms(3)] assms(4) have "x \<in> set (leaf_streams tree)"
    by (blast intro: leaf_stream_member)
  with assms(2) have fresh: "sr_seasons found = None \<longrightarrow> x \<in> set (response_streams ?r)"
    by (auto simp: response_streams_def)
  from run sf known fresh show ?thesis by simp
qed

theorem leaf_reuse_result_streams_witness:
  "fetchSeriesTranslator_clamp tree_235 (ta_state (switch_ex 1 3 1))
     = Inr (\<lparr>season = Some 3, episode = Some 1\<rparr>,
            \<lparr>es_number = 1, es_title = ''Episode 1'', es_stream = Some stream_y\<rparr>)
   \<and> fetchSeriesTranslator (env_ex 0 []) (switch_ex 1 3 1) 0 world0 = (Inr response_3_1, world0)
   \<and> response_streams response_3_1 = []"
proof -
  have "fetchSeriesTranslator (env_ex 0 []) (switch_ex 1 3 1) 0 world0
          = (Inr \<lparr>stateTo = \<lparr>season = Some 3, episode = Some 1\<rparr>, initial = None,
                  next = None\<rparr>, world0)
        \<and> response_streams \<lparr>stateTo = \<lparr>season = Some 3, episode = Some 1\<rparr>, initial = None,
                  next = None\<rparr> = []"
    using leaf_reuse_result_streams [OF find_translator_1 [of 3 1], of tree_235 None world0
        world0 undefined "env_ex 0 []" "\<lparr>season = Some 3, episode = Some 1\<rparr>"
        "\<lparr>es_number = 1, es_title = ''Episode 1'', es_stream = Some stream_y\<rparr>" stream_y 0]
      clamp_3_1
    by simp
  then show ?thesis using clamp_3_1 by (simp add: response_3_1_def)
qed

text \<open>
  The claim C5 as stated fails on the tree of the specification's example: season 3,
  episode 1 holds \<open>stream_y\<close>, the switch to it returns without any request, and
  \<open>stream_y\<close> is not among the streams of the response.
\<close>

theorem leaf_reuse_returns_stream_counterexample:
  "fetchSeriesTranslator_clamp tree_235 (ta_state (switch_ex 1 3 1))
     = Inr (\<lparr>season = Some 3, episode = Some 1\<rparr>,
            \<lparr>es_number = 1, es_title = ''Episode 1'', es_stream = Some stream_y\<rparr>)
   \<and> fetchSeriesTranslator (env_ex 0 []) (switch_ex 1 3 1) 0 world0 = (Inr response_3_1, world0)
   \<and> stream_y \<notin> set (response_streams response_3_1)"
  by (simp add: fetchSeriesTranslator.simps fetchSeriesTranslator_body_def
        fetchSeriesTranslator_seasons_def fetchSeriesTranslator_clamp_def
        response_streams_def response_3_1_def example_defs)

section \<open>A switch to a season that the tree lacks\<close>

lemma fetchSeriesStream_body_requests:
  "requests (snd (fetchSeriesStream_body env args w))
     = requests w @ [Post ''/ajax/get_cdn_series/'' (fetchSeriesStream_params args)]"
  by (auto simp: fetchSeriesStream_body_def ajax_post_def Let_def split: prod.splits sum.splits)

lemma fetchSeriesStream_requests_subset:
  "insert (Post ''/ajax/get_cdn_series/'' (fetchSeriesStream_params args))
          (set (requests (snd (fetchSeriesStream env args retry w))))
   = insert (Post ''/ajax/get_cdn_series/'' (fetchSeriesStream_params args)) (set (requests w))"
  unfolding fetchSeriesStream_loop
  by (rule retry_loop_invariant) (simp add: fetchSeriesStream_body_requests)

lemma fetchSeriesStream_requests_member:
  "Post ''/ajax/get_cdn_series/'' (fetchSeriesStream_params args)
     \<in> set (requests (snd (fetchSeriesStream env args retry w)))"
proof -
  obtain w0 where "fetchSeriesStream env args retry w = fetchSeriesStream_body env args w0"
    unfolding fetchSeriesStream_loop using retry_loop_last by blast
  then show ?thesis by (simp add: fetchSeriesStream_body_requests)
qed

lemma clamp_absent:
  assumes "season st \<notin> set (map (\<lambda>s. Some (ss_number s)) tree)"
    and "tree = s0 # ss" and "ss_episodes s0 = e0 # es"
  shows "fetchSeriesTranslator_clamp tree st
           = Inr (\<lparr>season = Some (ss_number s0), episode = Some (es_number e0)\<rparr>, e0)"
proof -
  from assms(1) have "find (\<lambda>s. Some (ss_number s) = season st) tree = None"
    by (force simp: find_None_iff)
  with assms(2,3) show ?thesis by (simp add: fetchSeriesTranslator_clamp_def)
qed

lemma seasons_known:
  assumes "find (\<lambda>s. sr_translatorId s = ta_translatorId args) (i_streams (ta_item args))
             = Some found"
    and "sr_seasons found = Some tree"
  shows "fetchSeriesTranslator_seasons env args w = (Inr (tree, None), w)"
  using assms by (simp add: fetchSeriesTranslator_seasons_def)

text \<open>
  C8, as amended. On a tree that is known already, whose first season has a first
  episode, a switch to a season number that the tree lacks lands on the first season and
  its first episode. When that episode holds a stream the call returns at once and the
  world is unchanged. When it holds none the call requests the stream of that episode,
  and returns it as \<open>next\<close> when the request succeeds. In either case every request that
  the call issues is the post for the stream of that episode: no request names the
  season that was asked for.
\<close>

theorem absent_season_clamps:
  assumes found: "find (\<lambda>s. sr_translatorId s = ta_translatorId args) (i_streams (ta_item args))
             = Some found"
    and known: "sr_seasons found = Some tree"
    and absent: "season (ta_state args) \<notin> set (map (\<lambda>s. Some (ss_number s)) tree)"
    and tree: "tree = s0 # ss" "ss_episodes s0 = e0 # es"
    and st: "st = \<lparr>season = Some (ss_number s0), episode = Some (es_number e0)\<rparr>"
    and leaf: "leaf = \<lparr>fa_id = i_id (ta_item args), fa_translatorId = ta_translatorId args,
                      fa_favsId = i_favsId (ta_item args),
                      fa_season = Some (ss_number s0), fa_episode = Some (es_number e0)\<rparr>"
  shows "(es_stream e0 \<noteq> None \<longrightarrow>
            fetchSeriesTranslator env args retry w
              = (Inr \<lparr>stateTo = st, initial = None, next = None\<rparr>, w))
    \<and> (es_stream e0 = None \<longrightarrow>
          Post ''/ajax/get_cdn_series/'' (fetchSeriesStream_params leaf)
            \<in> set (requests (snd (fetchSeriesTranslator env args retry w)))
          \<and> (\<forall>stream w'. fetchSeriesStream env leaf 0 w = (Inr stream, w') \<longrightarrow>
                fetchSeriesTranslator env args retry w
                  = (Inr \<lparr>stateTo = st, initial = None,
                          next = Some \<lparr>n_stream = stream, n_streamFor = st\<rparr>\<rparr>, w')))
    \<and> (\<forall>r w'. fetchSeriesTranslator env args retry w = (Inr r, w') \<longrightarrow>
          stateTo r = st \<and> (next r = None \<longleftrightarrow> es_stream e0 \<noteq> None))
    \<and> set (requests (snd (fetchSeriesTranslator env args retry w)))
        \<subseteq> insert (Post ''/ajax/get_cdn_series/'' (fetchSeriesStream_params leaf))
             (set (requests w))"
proof -
  let ?p = "Post ''/ajax/get_cdn_series/'' (fetchSeriesStream_params leaf)"
  note c = clamp_absent [OF absent tree]
  note s = seasons_known [OF found known]
  have body: "fetchSeriesTranslator_body env args w0 =
      (case es_stream e0 of
         Some _ \<Rightarrow> (Inr \<lparr>stateTo = st, initial = None, next = None\<rparr>, w0)
       | None \<Rightarrow>
           (case fetchSeriesStream env leaf 0 w0 of
              (Inl err, w2) \<Rightarrow> (Inl err, w2)
            | (Inr stream, w2) \<Rightarrow>
                (Inr \<lparr>stateTo = st, initial = None,
                      next = Some \<lparr>n_stream = stream, n_streamFor = st\<rparr>\<rparr>, w2)))" for w0
    using c s [of env w0] unfolding leaf st
    by (simp add: fetchSeriesTranslator_body_def split: option.splits)
  have 1: "es_stream e0 \<noteq> None \<longrightarrow>
            fetchSeriesTranslator env args retry w
              = (Inr \<lparr>stateTo = st, initial = None, next = None\<rparr>, w)"
    by (auto simp: fetchSeriesTranslator_loop body intro!: retry_loop_Inr)
  have 2: "es_stream e0 = None \<longrightarrow>
          (\<forall>stream w'. fetchSeriesStream env leaf 0 w = (Inr stream, w') \<longrightarrow>
                fetchSeriesTranslator env args retry w
                  = (Inr \<lparr>stateTo = st, initial = None,
                          next = Some \<lparr>n_stream = stream, n_streamFor = st\<rparr>\<rparr>, w'))"
    by (auto simp: fetchSeriesTranslator_loop body intro!: retry_loop_Inr)
  have 3: "es_stream e0 = None \<longrightarrow>
          ?p \<in> set (requests (snd (fetchSeriesTranslator env args retry w)))"
  proof
    assume n: "es_stream e0 = None"
    obtain w0 where "fetchSeriesTranslator env args retry w = fetchSeriesTranslator_body env args w0"
      unfolding fetchSeriesTranslator_loop using retry_loop_last by blast
    moreover from n have "snd (fetchSeriesTranslator_body env args w0) = snd (fetchSeriesStream env leaf 0 w0)"
      by (simp add: body snd_case_result)
    then have "?p \<in> set (requests (snd (fetchSeriesTranslator_body env args w0)))"
      by (simp only: fetchSeriesStream_requests_member)
    ultimately show "?p \<in> set (requests (snd (fetchSeriesTranslator env args retry w)))"
      by simp
  qed
  have 4: "\<forall>r w'. fetchSeriesTranslator env args retry w = (Inr r, w') \<longrightarrow>
          stateTo r = st \<and> (next r = None \<longleftrightarrow> es_stream e0 \<noteq> None)"
  proof (intro allI impI)
    fix r w'
    assume run: "fetchSeriesTranslator env args retry w = (Inr r, w')"
    from known
    have "sr_seasons found = Some tree \<or> sr_seasons found = None \<and> initial r = Some tree"
      by simp
    from fetchSeriesTranslator_returns [OF run found this]
    obtain ep where "fetchSeriesTranslator_clamp tree (ta_state args) = Inr (stateTo r, ep)"
      and "next r = None \<longleftrightarrow> es_stream ep \<noteq> None" by (elim exE conjE)
    with c show "stateTo r = st \<and> (next r = None \<longleftrightarrow> es_stream e0 \<noteq> None)"
      unfolding st by simp
  qed
  have inv: "insert ?p (set (requests (snd (fetchSeriesTranslator_body env args w0))))
               = insert ?p (set (requests w0))" for w0
  proof (cases "es_stream e0")
    case None
    then have "snd (fetchSeriesTranslator_body env args w0) = snd (fetchSeriesStream env leaf 0 w0)"
      by (simp add: body snd_case_result)
    then show ?thesis by (simp only: fetchSeriesStream_requests_subset)
  next
    case (Some x)
    then show ?thesis by (simp add: body)
  qed
  have "insert ?p (set (requests (snd (fetchSeriesTranslator env args retry w))))
          = insert ?p (set (requests w))"
    unfolding fetchSeriesTranslator_loop by (rule retry_loop_invariant) (rule inv)
  then have 5: "set (requests (snd (fetchSeriesTranslator env args retry w)))
        \<subseteq> insert ?p (set (requests w))" by blast
  from 1 2 3 4 5 show ?thesis by blast
qed

lemma tree_235_split:
  "tree_235 = hd tree_235 # tl tree_235"
  "ss_episodes (hd tree_235) = hd (ss_episodes (hd tree_235)) # tl (ss_episodes (hd tree_235))"
  by (simp_all add: tree_235_def)

theorem absent_season_clamps_witness:
  "season (ta_state (switch_ex 1 99 7)) \<notin> set (map (\<lambda>s. Some (ss_number s)) tree_235)
   \<and> es_stream (hd (ss_episodes (hd tree_235))) = None
   \<and> stream_request 1 2 10
       \<in> set (requests (snd (fetchSeriesTranslator (env_ex 0 []) (switch_ex 1 99 7) 0 world0)))
   \<and> set (requests (snd (fetchSeriesTranslator (env_ex 0 []) (switch_ex 1 99 7) 0 world0)))
       \<subseteq> insert (stream_request 1 2 10) (set (requests world0))"
proof -
  have a: "season (ta_state (switch_ex 1 99 7)) \<notin> set (map (\<lambda>s. Some (ss_number s)) tree_235)"
    by (simp add: switch_ex_def tree_235_def)
  have n: "es_stream (hd (ss_episodes (hd tree_235))) = None"
    by (simp add: tree_235_def)
  have p: "Post ''/ajax/get_cdn_series/''
             (fetchSeriesStream_params
                \<lparr>fa_id = i_id (ta_item (switch_ex 1 99 7)),
                 fa_translatorId = ta_translatorId (switch_ex 1 99 7),
                 fa_favsId = i_favsId (ta_item (switch_ex 1 99 7)),
                 fa_season = Some (ss_number (hd tree_235)),
                 fa_episode = Some (es_number (hd (ss_episodes (hd tree_235))))\<rparr>)
           = stream_request 1 2 10"
    by (simp add: fetchSeriesStream_params_def num_or_undefined_def stream_request_def
          example_defs)
  from absent_season_clamps [OF find_translator_1 [of 99 7] _ a tree_235_split refl refl,
      of "env_ex 0 []" 0 world0] n p
  show ?thesis using a by simp
qed

text \<open>
  The claim C8 as stated fails on the specification's own example: the tree has the
  seasons 2, 3 and 5 with the episodes 10 and 11 under season 2, the switch asks for
  season 99, and the call requests the stream of season 2, episode 10, whose slot is
  empty.
\<close>

theorem clamping_avoids_fetch_counterexample:
  "map ss_number tree_235 = [2, 3, 5]
   \<and> map es_number (ss_episodes (hd tree_235)) = [10, 11]
   \<and> sr_seasons (hd (i_streams (ta_item (switch_ex 1 99 7)))) = Some tree_235
   \<and> sr_translatorId (hd (i_streams (ta_item (switch_ex 1 99 7))))
       = ta_translatorId (switch_ex 1 99 7)
   \<and> season (ta_state (switch_ex 1 99 7)) = Some 99
   \<and> stream_fetches world0 = []
   \<and> fst (fetchSeriesTranslator (env_ex 0 []) (switch_ex 1 99 7) 0 world0) = Inr response_2_10
   \<and> stream_fetches (snd (fetchSeriesTranslator (env_ex 0 []) (switch_ex 1 99 7) 0 world0))
       = [stream_request 1 2 10]"
proof -
  have "map ss_number tree_235 = [2, 3, 5]"
    "map es_number (ss_episodes (hd tree_235)) = [10, 11]"
    "sr_seasons (hd (i_streams (ta_item (switch_ex 1 99 7)))) = Some tree_235"
    "sr_translatorId (hd (i_streams (ta_item (switch_ex 1 99 7))))
       = ta_translatorId (switch_ex 1 99 7)"
    "season (ta_state (switch_ex 1 99 7)) = Some 99"
    by (simp_all add: switch_ex_def series_ex_def tree_235_def)
  moreover have "stream_fetches world0 = []"
    by (simp add: stream_fetches_def world0_def)
  moreover
  have "stream_fetches (snd (fetchSeriesTranslator (env_ex 0 []) (switch_ex 1 99 7) 0 world0))
          = [stream_request 1 2 10]"
    by (simp add: switch_99_run stream_fetches_def is_stream_fetch_def stream_request_def)
  moreover
  have "fst (fetchSeriesTranslator (env_ex 0 []) (switch_ex 1 99 7) 0 world0)
          = Inr response_2_10"
    by (simp add: switch_99_run)
  ultimately show ?thesis by simp
qed

section \<open>The movie path\<close>

lemma find_map_eq:
  "map f xs = map g ys \<Longrightarrow> find (\<lambda>x. f x = k) xs = Some x
   \<Longrightarrow> \<exists>y. find (\<lambda>y. g y = k) ys = Some y"
proof (induction xs arbitrary: ys)
  case Nil
  then show ?case by simp
next
  case (Cons a xs)
  then obtain b ys' where ys: "ys = b # ys'" by (cases ys) auto
  with Cons show ?case by (cases "f a = k") auto
qed

lemma fetchItemMovie_body_slots:
  "fetchItemMovie_body env args w = (Inr item, w') \<Longrightarrow> movie_slots item"
  by (auto simp: fetchItemMovie_body_def movie_slots_def Let_def comp_def
           split: option.splits prod.splits sum.splits)

lemma fetchItemMovie_slots:
  "fetchItemMovie env args retry w = (Inr item, w') \<Longrightarrow> movie_slots item"
  unfolding fetchItemMovie_loop
  by (blast dest: retry_loop_returns fetchItemMovie_body_slots)

text \<open>
  C6. For a movie item with one slot per translator whose \<open>streams\<close> hold an entry for
  the target translator: when that slot holds a stream, \<open>fetchMovieTranslator\<close> returns
  at once, without a stream in its result and with the world unchanged; when the slot is
  empty, it calls \<open>fetchMovieStream\<close> for the target translator with the flags of that
  translator, and the stream that this call returns is the \<open>stream\<close> of the result.
\<close>

theorem fetchMovieTranslator_terminal:
  assumes slots: "movie_slots (mta_item args)"
    and found: "find (\<lambda>s. ms_translatorId s = mta_translatorId args) (m_streams (mta_item args))
                  = Some found"
  shows "(ms_stream found \<noteq> None \<longrightarrow>
            fetchMovieTranslator env args retry w = (Inr \<lparr>mr_stream = None\<rparr>, w))
    \<and> (ms_stream found = None \<longrightarrow>
          (\<exists>t. find (\<lambda>t. t_id t = mta_translatorId args) (m_translators (mta_item args)) = Some t
             \<and> (\<forall>stream w'.
                   fetchMovieStream env
                     \<lparr>ma_id = m_id (mta_item args), ma_translatorId = mta_translatorId args,
                      ma_favsId = m_favsId (mta_item args), ma_isCamrip = t_isCamrip t,
                      ma_isAds = t_isAds t, ma_isDirector = t_isDirector t\<rparr> 0 w
                     = (Inr stream, w')
                   \<longrightarrow> fetchMovieTranslator env args retry w
                         = (Inr \<lparr>mr_stream = Some stream\<rparr>, w'))
             \<and> (\<forall>r w'. fetchMovieTranslator env args retry w = (Inr r, w') \<longrightarrow>
                   (\<exists>stream w0.
                      fetchMovieStream env
                        \<lparr>ma_id = m_id (mta_item args), ma_translatorId = mta_translatorId args,
                         ma_favsId = m_favsId (mta_item args), ma_isCamrip = t_isCamrip t,
                         ma_isAds = t_isAds t, ma_isDirector = t_isDirector t\<rparr> 0 w0
                        = (Inr stream, w')
                      \<and> r = \<lparr>mr_stream = Some stream\<rparr>))))"
proof (intro conjI impI)
  assume "ms_stream found \<noteq> None"
  with found have "fetchMovieTranslator_body env args w = (Inr \<lparr>mr_stream = None\<rparr>, w)"
    by (auto simp: fetchMovieTranslator_body_def Let_def)
  then show "fetchMovieTranslator env args retry w = (Inr \<lparr>mr_stream = None\<rparr>, w)"
    by (simp add: fetchMovieTranslator_loop retry_loop_Inr)
next
  assume null: "ms_stream found = None"
  from find_map_eq [OF slots [unfolded movie_slots_def] found] obtain t where
    t: "find (\<lambda>t. t_id t = mta_translatorId args) (m_translators (mta_item args)) = Some t"
    by blast
  let ?margs = "\<lparr>ma_id = m_id (mta_item args), ma_translatorId = mta_translatorId args,
                      ma_favsId = m_favsId (mta_item args), ma_isCamrip = t_isCamrip t,
                      ma_isAds = t_isAds t, ma_isDirector = t_isDirector t\<rparr>"
  have body: "fetchMovieTranslator_body env args w0 =
      (case fetchMovieStream env ?margs 0 w0 of
         (Inl err, w') \<Rightarrow> (Inl err, w')
       | (Inr stream, w') \<Rightarrow> (Inr \<lparr>mr_stream = Some stream\<rparr>, w'))" for w0
    using found null t by (simp add: fetchMovieTranslator_body_def Let_def)
  have a: "\<forall>stream w'. fetchMovieStream env ?margs 0 w = (Inr stream, w')
             \<longrightarrow> fetchMovieTranslator env args retry w = (Inr \<lparr>mr_stream = Some stream\<rparr>, w')"
    by (simp add: fetchMovieTranslator_loop retry_loop_Inr body)
  have b: "\<forall>r w'. fetchMovieTranslator env args retry w = (Inr r, w') \<longrightarrow>
             (\<exists>stream w0. fetchMovieStream env ?margs 0 w0 = (Inr stream, w')
                \<and> r = \<lparr>mr_stream = Some stream\<rparr>)"
  proof (intro allI impI)
    fix r w'
    assume "fetchMovieTranslator env args retry w = (Inr r, w')"
    then obtain w0 where "fetchMovieTranslator_body env args w0 = (Inr r, w')"
      unfolding fetchMovieTranslator_loop by (blast dest: retry_loop_returns)
    then show "\<exists>stream w0. fetchMovieStream env ?margs 0 w0 = (Inr stream, w')
                \<and> r = \<lparr>mr_stream = Some stream\<rparr>"
      by (auto simp: body split: prod.splits sum.splits)
  qed
  from t a b
  show "\<exists>t. find (\<lambda>t. t_id t = mta_translatorId args) (m_translators (mta_item args)) = Some t
             \<and> (\<forall>stream w'.
                   fetchMovieStream env
                     \<lparr>ma_id = m_id (mta_item args), ma_translatorId = mta_translatorId args,
                      ma_favsId = m_favsId (mta_item args), ma_isCamrip = t_isCamrip t,
                      ma_isAds = t_isAds t, ma_isDirector = t_isDirector t\<rparr> 0 w
                     = (Inr stream, w')
                   \<longrightarrow> fetchMovieTranslator env args retry w
                         = (Inr \<lparr>mr_stream = Some stream\<rparr>, w'))
             \<and> (\<forall>r w'. fetchMovieTranslator env args retry w = (Inr r, w') \<longrightarrow>
                   (\<exists>stream w0.
                      fetchMovieStream env
                        \<lparr>ma_id = m_id (mta_item args), ma_translatorId = mta_translatorId args,
                         ma_favsId = m_favsId (mta_item args), ma_isCamrip = t_isCamrip t,
                         ma_isAds = t_isAds t, ma_isDirector = t_isDirector t\<rparr> 0 w0
                        = (Inr stream, w')
                      \<and> r = \<lparr>mr_stream = Some stream\<rparr>))"
    by blast
qed

lemma movie_ex_slots: "movie_slots movie_ex"
  by (simp add: movie_slots_def movie_ex_def translators_12_def)

theorem fetchMovieTranslator_terminal_witness:
  "movie_slots movie_ex
   \<and> find (\<lambda>s. ms_translatorId s = 2) (m_streams movie_ex)
       = Some \<lparr>ms_translatorId = 2, ms_stream = Some stream_y\<rparr>
   \<and> fetchMovieTranslator (env_ex 0 []) \<lparr>mta_item = movie_ex, mta_translatorId = 2\<rparr> 0 world0
       = (Inr \<lparr>mr_stream = None\<rparr>, world0)
   \<and> find (\<lambda>s. ms_translatorId s = 1) (m_streams movie_ex)
       = Some \<lparr>ms_translatorId = 1, ms_stream = None\<rparr>
   \<and> fst (fetchMovieTranslator (env_ex 0 []) \<lparr>mta_item = movie_ex, mta_translatorId = 1\<rparr> 0
            world0)
       = Inr \<lparr>mr_stream = Some stream_x\<rparr>"
proof -
  let ?hit = "\<lparr>mta_item = movie_ex, mta_translatorId = 2\<rparr>"
  let ?miss = "\<lparr>mta_item = movie_ex, mta_translatorId = 1\<rparr>"
  have s: "movie_slots (mta_item ?hit)" "movie_slots (mta_item ?miss)"
    by (simp_all add: movie_ex_slots)
  have f2: "find (\<lambda>s. ms_translatorId s = mta_translatorId ?hit) (m_streams (mta_item ?hit))
              = Some \<lparr>ms_translatorId = 2, ms_stream = Some stream_y\<rparr>"
    by (simp add: movie_ex_def)
  have f1: "find (\<lambda>s. ms_translatorId s = mta_translatorId ?miss) (m_streams (mta_item ?miss))
              = Some \<lparr>ms_translatorId = 1, ms_stream = None\<rparr>"
    by (simp add: movie_ex_def)
  from fetchMovieTranslator_terminal [OF s(1) f2, of "env_ex 0 []" 0 world0]
  have hit: "fetchMovieTranslator (env_ex 0 []) ?hit 0 world0 = (Inr \<lparr>mr_stream = None\<rparr>, world0)"
    by simp
  from fetchMovieTranslator_terminal [OF s(2) f1, of "env_ex 0 []" 0 world0]
  obtain t where
    t: "find (\<lambda>t. t_id t = mta_translatorId ?miss) (m_translators (mta_item ?miss)) = Some t"
    and run: "\<And>stream w'.
       fetchMovieStream (env_ex 0 [])
         \<lparr>ma_id = m_id (mta_item ?miss), ma_translatorId = mta_translatorId ?miss,
          ma_favsId = m_favsId (mta_item ?miss), ma_isCamrip = t_isCamrip t,
          ma_isAds = t_isAds t, ma_isDirector = t_isDirector t\<rparr> 0 world0 = (Inr stream, w')
       \<Longrightarrow> fetchMovieTranslator (env_ex 0 []) ?miss 0 world0
             = (Inr \<lparr>mr_stream = Some stream\<rparr>, w')"
    by auto
  from t have t1: "t = \<lparr>t_id = 1, t_isCamrip = False, t_isAds = False, t_isDirector = False\<rparr>"
    by (simp add: movie_ex_def translators_12_def)
  have "fst (fetchMovieStream (env_ex 0 [])
         \<lparr>ma_id = m_id (mta_item ?miss), ma_translatorId = mta_translatorId ?miss,
          ma_favsId = m_favsId (mta_item ?miss), ma_isCamrip = t_isCamrip t,
          ma_isAds = t_isAds t, ma_isDirector = t_isDirector t\<rparr> 0 world0) = Inr stream_x"
    unfolding t1
    by (simp add: fetchMovieStream.simps fetchMovieStream_body_def db_getAjaxMovie_def
          ajax_post_def Number_of_bool_def movie_ex_def translators_12_def example_defs)
  then obtain w' where
    "fetchMovieStream (env_ex 0 [])
         \<lparr>ma_id = m_id (mta_item ?miss), ma_translatorId = mta_translatorId ?miss,
          ma_favsId = m_favsId (mta_item ?miss), ma_isCamrip = t_isCamrip t,
          ma_isAds = t_isAds t, ma_isDirector = t_isDirector t\<rparr> 0 world0 = (Inr stream_x, w')"
    by (metis prod.collapse)
  from run [OF this]
  have miss: "fst (fetchMovieTranslator (env_ex 0 []) ?miss 0 world0)
                = Inr \<lparr>mr_stream = Some stream_x\<rparr>" by simp
  from hit miss movie_ex_slots f1 f2 show ?thesis by simp
qed

section \<open>The target of the episode-list fetch\<close>

lemma fetchSeriesEpisodesStream_body_Inr:
  assumes "fetchSeriesEpisodesStream_body env args w = (Inr r, w')"
  shows "or_else (ea_season args) (first_season_number (se_seasons r))
           = Inr (sf_season (se_streamFor r))
         \<and> or_else (ea_episode args) (first_episode_number (se_seasons r))
           = Inr (sf_episode (se_streamFor r))"
  using assms
  by (auto simp: fetchSeriesEpisodesStream_body_def Let_def
           split: prod.splits sum.splits if_splits)

lemma fetchSeriesEpisodesStream_Inr:
  assumes "fetchSeriesEpisodesStream env args retry w = (Inr r, w')"
  shows "or_else (ea_season args) (first_season_number (se_seasons r))
           = Inr (sf_season (se_streamFor r))
         \<and> or_else (ea_episode args) (first_episode_number (se_seasons r))
           = Inr (sf_episode (se_streamFor r))"
proof -
  from assms obtain w0 where "fetchSeriesEpisodesStream_body env args w0 = (Inr r, w')"
    unfolding fetchSeriesEpisodesStream_loop by (blast dest: retry_loop_returns)
  then show ?thesis by (rule fetchSeriesEpisodesStream_body_Inr)
qed

lemma first_season_number_Inr:
  "first_season_number seasons = Inr n \<Longrightarrow> \<exists>s ss. seasons = s # ss \<and> n = s_number s"
  by (auto simp: first_season_number_def split: list.splits)

lemma first_episode_number_Inr:
  "first_episode_number seasons = Inr n
   \<Longrightarrow> \<exists>s ss e es. seasons = s # ss \<and> s_episodes s = e # es \<and> n = e_number e"
  by (auto simp: first_episode_number_def split: list.splits)

lemma fetchSeriesEpisodesStream_answered:
  assumes "net_post env (requests w) ''/ajax/get_cdn_series/''
             (fetchSeriesEpisodesStream_params args) = Inr data"
    and "r_success data"
    and "parseStreamSeasons env (r_seasons data) (r_episodes data) = Inr seasons"
    and "parseStream env data = Inr st"
    and "or_else (ea_season args) (first_season_number seasons) = Inr s"
    and "or_else (ea_episode args) (first_episode_number seasons) = Inr e"
  shows "fetchSeriesEpisodesStream env args retry w
           = (Inr \<lparr>se_seasons = seasons, se_stream = st,
                   se_streamFor = \<lparr>sf_season = s, sf_episode = e\<rparr>\<rparr>,
              w\<lparr>requests := requests w
                   @ [Post ''/ajax/get_cdn_series/'' (fetchSeriesEpisodesStream_params args)]\<rparr>)"
proof -
  from assms have "fetchSeriesEpisodesStream_body env args w
           = (Inr \<lparr>se_seasons = seasons, se_stream = st,
                   se_streamFor = \<lparr>sf_season = s, sf_episode = e\<rparr>\<rparr>,
              w\<lparr>requests := requests w
                   @ [Post ''/ajax/get_cdn_series/'' (fetchSeriesEpisodesStream_params args)]\<rparr>)"
    by (simp add: fetchSeriesEpisodesStream_body_def ajax_post_def Let_def)
  then show ?thesis by (simp add: fetchSeriesEpisodesStream_loop retry_loop_Inr)
qed

text \<open>
  C7. A call of \<open>fetchSeriesEpisodesStream\<close> without a season hint and without an
  episode hint: when the provider answers the post with success, the seasons parse to a
  list whose first season has a first episode and the stream parses, the call returns
  at that attempt with \<open>streamFor\<close> equal to the number of the first season of the
  list and the number of the first episode of that season; and every result that the
  call returns, at whichever attempt, has a first season with a first episode in its
  \<open>seasons\<close> and these two numbers as \<open>streamFor\<close>. First means first in the order
  of the parsed list.
\<close>

theorem default_targeting:
  assumes "ea_season args = None" and "ea_episode args = None"
  shows "(\<forall>data s ss e es st.
            net_post env (requests w) ''/ajax/get_cdn_series/''
              (fetchSeriesEpisodesStream_params args) = Inr data
            \<and> r_success data
            \<and> parseStreamSeasons env (r_seasons data) (r_episodes data) = Inr (s # ss)
            \<and> s_episodes s = e # es
            \<and> parseStream env data = Inr st
            \<longrightarrow> fetchSeriesEpisodesStream env args retry w
                  = (Inr \<lparr>se_seasons = s # ss, se_stream = st,
                          se_streamFor = \<lparr>sf_season = s_number s, sf_episode = e_number e\<rparr>\<rparr>,
                     w\<lparr>requests := requests w
                          @ [Post ''/ajax/get_cdn_series/''
                               (fetchSeriesEpisodesStream_params args)]\<rparr>))
    \<and> (\<forall>r w'. fetchSeriesEpisodesStream env args retry w = (Inr r, w')
          \<longrightarrow> (\<exists>s ss e es. se_seasons r = s # ss \<and> s_episodes s = e # es
                 \<and> se_streamFor r = \<lparr>sf_season = s_number s, sf_episode = e_number e\<rparr>))"
proof (intro conjI allI impI)
  fix data s ss e es st
  assume h: "net_post env (requests w) ''/ajax/get_cdn_series/''
              (fetchSeriesEpisodesStream_params args) = Inr data
            \<and> r_success data
            \<and> parseStreamSeasons env (r_seasons data) (r_episodes data) = Inr (s # ss)
            \<and> s_episodes s = e # es
            \<and> parseStream env data = Inr st"
  with assms show "fetchSeriesEpisodesStream env args retry w
                  = (Inr \<lparr>se_seasons = s # ss, se_stream = st,
                          se_streamFor = \<lparr>sf_season = s_number s, sf_episode = e_number e\<rparr>\<rparr>,
                     w\<lparr>requests := requests w
                          @ [Post ''/ajax/get_cdn_series/''
                               (fetchSeriesEpisodesStream_params args)]\<rparr>)"
    by (intro fetchSeriesEpisodesStream_answered [where data = data])
       (simp_all add: or_else_def first_season_number_def first_episode_number_def)
next
  fix r w'
  assume "fetchSeriesEpisodesStream env args retry w = (Inr r, w')"
  from fetchSeriesEpisodesStream_Inr [OF this] assms
  have s: "first_season_number (se_seasons r) = Inr (sf_season (se_streamFor r))"
    and e: "first_episode_number (se_seasons r) = Inr (sf_episode (se_streamFor r))"
    by (simp_all add: or_else_def)
  from first_episode_number_Inr [OF e] obtain s0 ss e0 es where
    t: "se_seasons r = s0 # ss" "s_episodes s0 = e0 # es"
       "sf_episode (se_streamFor r) = e_number e0" by blast
  with s have "sf_season (se_streamFor r) = s_number s0"
    by (simp add: first_season_number_def)
  with t have "se_streamFor r = \<lparr>sf_season = s_number s0, sf_episode = e_number e0\<rparr>"
    by simp
  with t show "\<exists>s ss e es. se_seasons r = s # ss \<and> s_episodes s = e # es
                 \<and> se_streamFor r = \<lparr>sf_season = s_number s, sf_episode = e_number e\<rparr>"
    by blast
qed

lemma seasons_52_split:
  "seasons_52 = hd seasons_52 # tl seasons_52"
  "s_episodes (hd seasons_52) = hd (s_episodes (hd seasons_52)) # tl (s_episodes (hd seasons_52))"
  "s_number (hd seasons_52) = 5"
  "e_number (hd (s_episodes (hd seasons_52))) = 4"
  by (simp_all add: seasons_52_def)

lemma env_ex_answers:
  "net_post (env_ex 0 bad) h url params = Inr response_ok"
  "r_success response_ok"
  "parseStreamSeasons (env_ex n bad) a b = Inr seasons_52"
  "parseStream (env_ex n bad) data = Inr stream_x"
  by (simp_all add: env_ex_def response_ok_def)

theorem default_targeting_witness:
  "ea_season (episodes_args None None) = None
   \<and> ea_episode (episodes_args None None) = None
   \<and> map s_number seasons_52 = [5, 2]
   \<and> map e_number (s_episodes (hd seasons_52)) = [4, 1]
   \<and> fst (fetchSeriesEpisodesStream (env_ex 0 []) (episodes_args None None) 0 world0)
       = Inr \<lparr>se_seasons = seasons_52, se_stream = stream_x,
              se_streamFor = \<lparr>sf_season = 5, sf_episode = 4\<rparr>\<rparr>"
proof -
  have a: "ea_season (episodes_args None None) = None"
          "ea_episode (episodes_args None None) = None"
    by (simp_all add: episodes_args_def)
  note t = default_targeting [OF a, of "env_ex 0 []" world0 0, THEN conjunct1, rule_format,
      of response_ok "hd seasons_52" "tl seasons_52" "hd (s_episodes (hd seasons_52))"
         "tl (s_episodes (hd seasons_52))" stream_x]
  have "fst (fetchSeriesEpisodesStream (env_ex 0 []) (episodes_args None None) 0 world0)
       = Inr \<lparr>se_seasons = seasons_52, se_stream = stream_x,
              se_streamFor = \<lparr>sf_season = 5, sf_episode = 4\<rparr>\<rparr>"
    using t seasons_52_split by (simp add: env_ex_answers)
  moreover have "map s_number seasons_52 = [5, 2]"
    "map e_number (s_episodes (hd seasons_52)) = [4, 1]"
    by (simp_all add: seasons_52_def)
  ultimately show ?thesis using a by simp
qed

text \<open>
  C10. A call of \<open>fetchSeriesEpisodesStream\<close> with a season hint \<open>n\<close> other than
  \<open>0\<close> and with no episode hint, or the episode hint \<open>0\<close>: the \<open>streamFor\<close> of the
  result is the season \<open>n\<close> with the number of the first episode of the first season
  of the parsed list, whatever the season \<open>n\<close> holds.
\<close>

theorem mixed_hint_targeting:
  assumes "ea_season args = Some n" and "n \<noteq> 0"
    and "ea_episode args = None \<or> ea_episode args = Some 0"
  shows "(\<forall>data s ss e es st.
            net_post env (requests w) ''/ajax/get_cdn_series/''
              (fetchSeriesEpisodesStream_params args) = Inr data
            \<and> r_success data
            \<and> parseStreamSeasons env (r_seasons data) (r_episodes data) = Inr (s # ss)
            \<and> s_episodes s = e # es
            \<and> parseStream env data = Inr st
            \<longrightarrow> fetchSeriesEpisodesStream env args retry w
                  = (Inr \<lparr>se_seasons = s # ss, se_stream = st,
                          se_streamFor = \<lparr>sf_season = n, sf_episode = e_number e\<rparr>\<rparr>,
                     w\<lparr>requests := requests w
                          @ [Post ''/ajax/get_cdn_series/''
                               (fetchSeriesEpisodesStream_params args)]\<rparr>))
    \<and> (\<forall>r w'. fetchSeriesEpisodesStream env args retry w = (Inr r, w')
          \<longrightarrow> (\<exists>s ss e es. se_seasons r = s # ss \<and> s_episodes s = e # es
                 \<and> se_streamFor r = \<lparr>sf_season = n, sf_episode = e_number e\<rparr>))"
proof (intro conjI allI impI)
  fix data s ss e es st
  assume h: "net_post env (requests w) ''/ajax/get_cdn_series/''
              (fetchSeriesEpisodesStream_params args) = Inr data
            \<and> r_success data
            \<and> parseStreamSeasons env (r_seasons data) (r_episodes data) = Inr (s # ss)
            \<and> s_episodes s = e # es
            \<and> parseStream env data = Inr st"
  with assms show "fetchSeriesEpisodesStream env args retry w
                  = (Inr \<lparr>se_seasons = s # ss, se_stream = st,
                          se_streamFor = \<lparr>sf_season = n, sf_episode = e_number e\<rparr>\<rparr>,
                     w\<lparr>requests := requests w
                          @ [Post ''/ajax/get_cdn_series/''
                               (fetchSeriesEpisodesStream_params args)]\<rparr>)"
    by (intro fetchSeriesEpisodesStream_answered [where data = data])
       (auto simp: or_else_def first_season_number_def first_episode_number_def)
next
  fix r w'
  assume "fetchSeriesEpisodesStream env args retry w = (Inr r, w')"
  from fetchSeriesEpisodesStream_Inr [OF this] assms
  have s: "sf_season (se_streamFor r) = n"
    and e: "first_episode_number (se_seasons r) = Inr (sf_episode (se_streamFor r))"
    by (auto simp: or_else_def)
  from first_episode_number_Inr [OF e] obtain s0 ss e0 es where
    t: "se_seasons r = s0 # ss" "s_episodes s0 = e0 # es"
       "sf_episode (se_streamFor r) = e_number e0" by blast
  with s have "se_streamFor r = \<lparr>sf_season = n, sf_episode = e_number e0\<rparr>"
    by simp
  with t show "\<exists>s ss e es. se_seasons r = s # ss \<and> s_episodes s = e # es
                 \<and> se_streamFor r = \<lparr>sf_season = n, sf_episode = e_number e\<rparr>"
    by blast
qed

theorem mixed_hint_targeting_witness:
  "ea_season (episodes_args (Some 2) None) = Some 2
   \<and> ea_episode (episodes_args (Some 2) None) = None
   \<and> map s_number seasons_52 = [5, 2]
   \<and> map e_number (s_episodes (hd seasons_52)) = [4, 1]
   \<and> map e_number (s_episodes (hd (tl seasons_52))) = [10, 11]
   \<and> fst (fetchSeriesEpisodesStream (env_ex 0 []) (episodes_args (Some 2) None) 0 world0)
       = Inr \<lparr>se_seasons = seasons_52, se_stream = stream_x,
              se_streamFor = \<lparr>sf_season = 2, sf_episode = 4\<rparr>\<rparr>"
proof -
  have a: "ea_season (episodes_args (Some 2) None) = Some 2" "(2::int) \<noteq> 0"
          "ea_episode (episodes_args (Some 2) None) = None
           \<or> ea_episode (episodes_args (Some 2) None) = Some 0"
    by (simp_all add: episodes_args_def)
  note t = mixed_hint_targeting [OF a, of "env_ex 0 []" world0 0, THEN conjunct1, rule_format,
      of response_ok "hd seasons_52" "tl seasons_52" "hd (s_episodes (hd seasons_52))"
         "tl (s_episodes (hd seasons_52))" stream_x]
  have "fst (fetchSeriesEpisodesStream (env_ex 0 []) (episodes_args (Some 2) None) 0 world0)
       = Inr \<lparr>se_seasons = seasons_52, se_stream = stream_x,
              se_streamFor = \<lparr>sf_season = 2, sf_episode = 4\<rparr>\<rparr>"
    using t seasons_52_split by (simp add: env_ex_answers)
  moreover have "map s_number seasons_52 = [5, 2]"
    "map e_number (s_episodes (hd seasons_52)) = [4, 1]"
    "map e_number (s_episodes (hd (tl seasons_52))) = [10, 11]"
    by (simp_all add: seasons_52_def)
  ultimately show ?thesis using a by (simp add: episodes_args_def)
qed

section \<open>Bounded retry\<close>

lemma bounded_retry_of_loop:
  "(\<And>retry w. f retry w = retry_loop body retry w) \<Longrightarrow> bounded_retry f body"
  using bounded_retry_loop [of body] by (simp add: bounded_retry_def)

lemma attempts_fetchSeriesStream_requests:
  "attempts (fetchSeriesStream_body env args) n w = (rs, w')
   \<Longrightarrow> requests w' = requests w
         @ replicate n (Post ''/ajax/get_cdn_series/'' (fetchSeriesStream_params args))"
proof (induction n arbitrary: w rs)
  case 0
  then show ?case by simp
next
  case (Suc n)
  obtain r w1 where b: "fetchSeriesStream_body env args w = (r, w1)"
    by (cases "fetchSeriesStream_body env args w")
  obtain rs' w2 where a: "attempts (fetchSeriesStream_body env args) n w1 = (rs', w2)"
    by (cases "attempts (fetchSeriesStream_body env args) n w1")
  from Suc.prems b a have w2: "w2 = w'" by simp
  from fetchSeriesStream_body_requests [of env args w] b
  have "requests w1 = requests w
          @ [Post ''/ajax/get_cdn_series/'' (fetchSeriesStream_params args)]" by simp
  with Suc.IH [OF a [unfolded w2]] show ?case by (simp add: replicate_app_Cons_same)
qed

text \<open>
  C3. Every exported function of the module satisfies the retry contract with respect
  to its own \<open>try\<close> block: when the block fails \<open>k \<le> 3\<close> times in a row and then
  returns a value, the call returns that value and leaves the world of exactly these
  \<open>k + 1\<close> executions; when it fails four times in a row, the call throws the error of
  the fourth execution and leaves the world of exactly these four. For
  \<open>fetchSeriesStream\<close> each execution of the block issues exactly one request, so the
  number of requests issued counts the executions.
\<close>

theorem bounded_retry_semantics:
  "bounded_retry (fetchSearch env sa) (fetchSearch_body env sa)
   \<and> bounded_retry (fetchItemMovie env ima) (fetchItemMovie_body env ima)
   \<and> bounded_retry (fetchItemSeries env isa)
        (fetchItemSeries_body env isa)
   \<and> bounded_retry (fetchItem env ia) (fetchItem_body env ia)
   \<and> bounded_retry (fetchStreamDownloadSize env za)
        (fetchStreamDownloadSize_body env za)
   \<and> bounded_retry (fetchStreamThumbnails env tha)
        (fetchStreamThumbnails_body env tha)
   \<and> bounded_retry (fetchStreamDetails env da)
        (fetchStreamDetails_body env da)
   \<and> bounded_retry (fetchMovieStream env ma) (fetchMovieStream_body env ma)
   \<and> bounded_retry (fetchSeriesStream env fa) (fetchSeriesStream_body env fa)
   \<and> bounded_retry (fetchSeriesEpisodesStream env ea)
        (fetchSeriesEpisodesStream_body env ea)
   \<and> bounded_retry (fetchMovieTranslator env mta)
        (fetchMovieTranslator_body env mta)
   \<and> bounded_retry (fetchSeriesTranslator env ta)
        (fetchSeriesTranslator_body env ta)
   \<and> bounded_retry (fetchTranslator env xa) (fetchTranslator_body env xa)
   \<and> (\<forall>n w rs w'.
         attempts (fetchSeriesStream_body env fa) n w = (rs, w')
         \<longrightarrow> requests w' = requests w
               @ replicate n (Post ''/ajax/get_cdn_series/''
                                (fetchSeriesStream_params fa)))"
  by (intro conjI bounded_retry_of_loop fetchSearch_loop fetchItemMovie_loop
        fetchItemSeries_loop fetchItem_loop fetchStreamDownloadSize_loop
        fetchStreamThumbnails_loop fetchStreamDetails_loop fetchMovieStream_loop
        fetchSeriesStream_loop fetchSeriesEpisodesStream_loop fetchMovieTranslator_loop
        fetchSeriesTranslator_loop fetchTranslator_loop allI impI
        attempts_fetchSeriesStream_requests)

lemma leaf_request:
  "Post ''/ajax/get_cdn_series/'' (fetchSeriesStream_params (leaf_args 2 10))
     = stream_request 1 2 10"
  by (simp add: fetchSeriesStream_params_def leaf_args_def stream_request_def
        num_or_undefined_def)

lemma fetchSeriesStream_body_ex:
  "fetchSeriesStream_body (env_ex n []) (leaf_args 2 10) w
     = (if length (requests w) < n then Inl (TransportError ''timeout'') else Inr stream_x,
        w\<lparr>requests := requests w @ [stream_request 1 2 10]\<rparr>)"
  by (simp add: fetchSeriesStream_body_def ajax_post_def leaf_request Let_def env_ex_def response_ok_def)

theorem bounded_retry_semantics_witness:
  "attempts (fetchSeriesStream_body (env_ex 2 []) (leaf_args 2 10)) (Suc 2) world0
     = (map Inl [TransportError ''timeout'', TransportError ''timeout''] @ [Inr stream_x],
        world0\<lparr>requests := replicate 3 (stream_request 1 2 10)\<rparr>)
   \<and> fetchSeriesStream (env_ex 2 []) (leaf_args 2 10) 0 world0
       = (Inr stream_x, world0\<lparr>requests := replicate 3 (stream_request 1 2 10)\<rparr>)
   \<and> attempts (fetchSeriesStream_body (env_ex 9 []) (leaf_args 2 10)) 4 world0
       = (map Inl [TransportError ''timeout'', TransportError ''timeout'',
                   TransportError ''timeout'', TransportError ''timeout''],
          world0\<lparr>requests := replicate 4 (stream_request 1 2 10)\<rparr>)
   \<and> fetchSeriesStream (env_ex 9 []) (leaf_args 2 10) 0 world0
       = (Inl (TransportError ''timeout''),
          world0\<lparr>requests := replicate 4 (stream_request 1 2 10)\<rparr>)"
proof -
  let ?t = "TransportError ''timeout''"
  have a2: "attempts (fetchSeriesStream_body (env_ex 2 []) (leaf_args 2 10)) (Suc 2) world0
     = (map Inl [?t, ?t] @ [Inr stream_x],
        world0\<lparr>requests := replicate 3 (stream_request 1 2 10)\<rparr>)"
    by (simp add: eval_nat_numeral fetchSeriesStream_body_ex world0_def)
  have a4: "attempts (fetchSeriesStream_body (env_ex 9 []) (leaf_args 2 10)) 4 world0
       = (map Inl [?t, ?t, ?t, ?t],
          world0\<lparr>requests := replicate 4 (stream_request 1 2 10)\<rparr>)"
    by (simp add: eval_nat_numeral fetchSeriesStream_body_ex world0_def)
  have br: "bounded_retry (fetchSeriesStream (env_ex n []) (leaf_args 2 10))
              (fetchSeriesStream_body (env_ex n []) (leaf_args 2 10))" for n
    using bounded_retry_semantics [where env = "env_ex n []" and fa = "leaf_args 2 10"]
    by blast
  from br [of 2, unfolded bounded_retry_def, THEN conjunct1, rule_format,
      of 2 "[?t, ?t]" world0 stream_x] a2
  have r2: "fetchSeriesStream (env_ex 2 []) (leaf_args 2 10) 0 world0
       = (Inr stream_x, world0\<lparr>requests := replicate 3 (stream_request 1 2 10)\<rparr>)"
    by simp
  from br [of 9, unfolded bounded_retry_def, THEN conjunct2, rule_format,
      of "[?t, ?t, ?t, ?t]" world0] a4
  have r4: "fetchSeriesStream (env_ex 9 []) (leaf_args 2 10) 0 world0
       = (Inl ?t, world0\<lparr>requests := replicate 4 (stream_request 1 2 10)\<rparr>)"
    by simp
  from a2 a4 r2 r4 show ?thesis by simp
qed

section \<open>The fan-out of \<open>fetchStreamDetails\<close>\<close>

lemma Promise_all_map_Inr: "Promise_all (map Inr vs) = Inr vs"
  by (induction vs) auto

lemma Promise_all_Inr_map: "Promise_all ps = Inr vs \<Longrightarrow> ps = map Inr vs"
proof (induction ps arbitrary: vs)
  case Nil
  then show ?case by simp
next
  case (Cons p ps)
  show ?case
  proof (cases p)
    case (Inl e)
    with Cons.prems show ?thesis by simp
  next
    case (Inr v)
    with Cons.prems obtain vs' where "Promise_all ps = Inr vs'" "vs = v # vs'"
      by (auto split: sum.splits)
    with Cons.IH [of vs'] Inr show ?thesis by simp
  qed
qed

lemma Promise_all_Inr: "Promise_all ps = Inr vs \<longleftrightarrow> ps = map Inr vs"
  by (auto simp: Promise_all_map_Inr dest: Promise_all_Inr_map)

lemma Promise_all_Inl: "Promise_all ps = Inl e \<Longrightarrow> Inl e \<in> set ps"
  by (induction ps rule: Promise_all.induct) (auto split: sum.splits)

lemma Promise_all_cases:
  "(\<exists>vs. Promise_all ps = Inr vs \<and> ps = map Inr vs) \<or> (\<exists>e. Promise_all ps = Inl e \<and> Inl e \<in> set ps)"
  by (cases "Promise_all ps") (auto simp: Promise_all_Inr dest: Promise_all_Inl)

lemma run_all_length: "run_all ps w = (rs, w') \<Longrightarrow> length rs = length ps"
  by (induction ps arbitrary: w rs) (auto split: prod.splits)

lemma start_length:
  "fetchStreamDetails_start env args w = ((t, ps), w2)
   \<Longrightarrow> length ps = length (st_qualities (da_stream args))"
  by (auto simp: fetchStreamDetails_start_def split: prod.splits dest: run_all_length)

lemma body_of_start:
  assumes "fetchStreamDetails_start env args w = ((t, ps), w2)"
  shows "fetchStreamDetails_body env args w =
     (case Promise_all2 (Promise_all ps) t of
        Inl err \<Rightarrow> (Inl err, w2)
      | Inr (szs, thumbs) \<Rightarrow> (Inr \<lparr>thumbnails = thumbs, sizes = szs\<rparr>, w2))"
  using assms by (simp add: fetchStreamDetails_body_def)

lemma body_no_rejection:
  assumes "fetchStreamDetails_start env args w = (tp, w2)" and "rejections tp = {}"
  shows "\<exists>d. fetchStreamDetails_body env args w = (Inr d, w2)
             \<and> fst tp = Inr (thumbnails d) \<and> snd tp = map Inr (sizes d)
             \<and> length (sizes d) = length (st_qualities (da_stream args))"
proof -
  obtain t ps where tp: "tp = (t, ps)" by (cases tp)
  from assms(2) tp obtain th where t: "t = Inr th"
    by (cases t) (auto simp: rejections_def)
  from assms(2) tp Promise_all_cases [of ps] obtain vs where
    ps: "Promise_all ps = Inr vs" "ps = map Inr vs"
    by (auto simp: rejections_def)
  from start_length [OF assms(1) [unfolded tp]] ps have "length vs = length (st_qualities (da_stream args))"
    by simp
  with body_of_start [OF assms(1) [unfolded tp]] t ps tp show ?thesis
    by (auto simp: Promise_all2_def)
qed

lemma body_rejection:
  assumes "fetchStreamDetails_start env args w = (tp, w2)" and "rejections tp \<noteq> {}"
  shows "\<exists>e \<in> rejections tp. fetchStreamDetails_body env args w = (Inl e, w2)"
proof -
  obtain t ps where tp: "tp = (t, ps)" by (cases tp)
  note b = body_of_start [OF assms(1) [unfolded tp]]
  from Promise_all_cases [of ps] show ?thesis
  proof
    assume "\<exists>e. Promise_all ps = Inl e \<and> Inl e \<in> set ps"
    then obtain e where "Promise_all ps = Inl e" "Inl e \<in> set ps" by blast
    with b tp show ?thesis by (auto simp: Promise_all2_def rejections_def)
  next
    assume "\<exists>vs. Promise_all ps = Inr vs \<and> ps = map Inr vs"
    then obtain vs where ps: "Promise_all ps = Inr vs" "ps = map Inr vs" by blast
    with assms(2) tp obtain e where "t = Inl e" by (auto simp: rejections_def)
    with b tp ps show ?thesis by (auto simp: Promise_all2_def rejections_def)
  qed
qed

lemma start_total: "\<exists>tp w2. fetchStreamDetails_start env args w = (tp, w2)"
  by (cases "fetchStreamDetails_start env args w") blast

lemma body_Inr_start:
  assumes "fetchStreamDetails_body env args w0 = (Inr d, w')"
  shows "fetchStreamDetails_start env args w0 = ((Inr (thumbnails d), map Inr (sizes d)), w')
         \<and> length (sizes d) = length (st_qualities (da_stream args))"
proof -
  obtain tp w2 where s: "fetchStreamDetails_start env args w0 = (tp, w2)"
    using start_total by blast
  show ?thesis
  proof (cases "rejections tp = {}")
    case True
    from body_no_rejection [OF s True] assms s show ?thesis
      by (cases tp) auto
  next
    case False
    from body_rejection [OF s False] assms show ?thesis by auto
  qed
qed

lemma body_Inl_start:
  assumes "fetchStreamDetails_body env args w0 = (Inl e, w')"
  shows "\<exists>tp. fetchStreamDetails_start env args w0 = (tp, w') \<and> e \<in> rejections tp"
proof -
  obtain tp w2 where s: "fetchStreamDetails_start env args w0 = (tp, w2)"
    using start_total by blast
  show ?thesis
  proof (cases "rejections tp = {}")
    case True
    from body_no_rejection [OF s True] assms show ?thesis by auto
  next
    case False
    from body_rejection [OF s False] assms s show ?thesis by auto
  qed
qed

text \<open>
  C9. One attempt of \<open>fetchStreamDetails\<close> yields a result exactly when the thumbnail
  fetch and every size fetch that it started were fulfilled, and the result then holds
  the thumbnails and one size per quality; when any of them was rejected the attempt
  fails with the error of a rejected one and yields no result, whatever the others
  returned. The whole call returns the result of an attempt in which nothing was
  rejected, or fails with an error that one of the operations of its last attempt was
  rejected with; when four attempts in a row fail it fails with the error of the fourth.
\<close>

theorem fetchStreamDetails_atomic:
  "(\<forall>w0 tp w2. fetchStreamDetails_start env args w0 = (tp, w2) \<longrightarrow>
       (rejections tp = {} \<longrightarrow>
          (\<exists>d. fetchStreamDetails_body env args w0 = (Inr d, w2)
              \<and> fst tp = Inr (thumbnails d) \<and> snd tp = map Inr (sizes d)
              \<and> length (sizes d) = length (st_qualities (da_stream args))))
     \<and> (rejections tp \<noteq> {} \<longrightarrow>
          (\<exists>e \<in> rejections tp. fetchStreamDetails_body env args w0 = (Inl e, w2))))
   \<and> (\<forall>d w'. fetchStreamDetails env args retry w = (Inr d, w') \<longrightarrow>
         (\<exists>w0. fetchStreamDetails_start env args w0
                 = ((Inr (thumbnails d), map Inr (sizes d)), w'))
         \<and> length (sizes d) = length (st_qualities (da_stream args)))
   \<and> (\<forall>e w'. fetchStreamDetails env args retry w = (Inl e, w') \<longrightarrow>
         (\<exists>w0 tp. fetchStreamDetails_start env args w0 = (tp, w') \<and> e \<in> rejections tp))
   \<and> (\<forall>es w'. length es = 4
          \<and> attempts (fetchStreamDetails_body env args) 4 w = (map Inl es, w') \<longrightarrow>
         fetchStreamDetails env args 0 w = (Inl (last es), w'))"
proof (intro conjI allI impI)
  fix w0 tp w2
  assume "fetchStreamDetails_start env args w0 = (tp, w2)" "rejections tp = {}"
  then show "\<exists>d. fetchStreamDetails_body env args w0 = (Inr d, w2)
              \<and> fst tp = Inr (thumbnails d) \<and> snd tp = map Inr (sizes d)
              \<and> length (sizes d) = length (st_qualities (da_stream args))"
    by (rule body_no_rejection)
next
  fix w0 tp w2
  assume "fetchStreamDetails_start env args w0 = (tp, w2)" "rejections tp \<noteq> {}"
  then show "\<exists>e \<in> rejections tp. fetchStreamDetails_body env args w0 = (Inl e, w2)"
    by (rule body_rejection)
next
  fix d w'
  assume "fetchStreamDetails env args retry w = (Inr d, w')"
  then obtain w0 where b: "fetchStreamDetails_body env args w0 = (Inr d, w')"
    unfolding fetchStreamDetails_loop by (blast dest: retry_loop_returns)
  from body_Inr_start [OF b]
  show "\<exists>w0. fetchStreamDetails_start env args w0
                 = ((Inr (thumbnails d), map Inr (sizes d)), w')"
    and "length (sizes d) = length (st_qualities (da_stream args))"
    by blast+
next
  fix e w'
  assume r: "fetchStreamDetails env args retry w = (Inl e, w')"
  obtain w0 where "fetchStreamDetails env args retry w = fetchStreamDetails_body env args w0"
    unfolding fetchStreamDetails_loop using retry_loop_last by blast
  with r have "fetchStreamDetails_body env args w0 = (Inl e, w')" by simp
  from body_Inl_start [OF this]
  show "\<exists>w0 tp. fetchStreamDetails_start env args w0 = (tp, w') \<and> e \<in> rejections tp"
    by blast
next
  fix es w'
  assume "length es = 4 \<and> attempts (fetchStreamDetails_body env args) 4 w = (map Inl es, w')"
  then show "fetchStreamDetails env args 0 w = (Inl (last es), w')"
    unfolding fetchStreamDetails_loop
    by (intro retry_loop_attempts_failure [where k = 3]) (auto simp: numeral_eq_Suc)
qed

lemmas details_eval =
  fetchStreamDetails_start_def fetchStreamThumbnails.simps fetchStreamThumbnails_body_def
  db_getStreamThumbnail_def ajax_get_def fetchStreamDownloadSize.simps
  fetchStreamDownloadSize_body_def db_getStreamSize_def axios_head_def content_length_def
  env_ex_def world0_def stream_x_def details_ex_def

lemma start_bad:
  "fst (fetchStreamDetails_start (env_ex 0 ''/v/720.mp4'') details_ex world0)
     = (Inr ''sheet'',
        [Inr \<lparr>z_id = 1, z_downloadSize = 1024, z_downloadSizeStr = ''1 KB''\<rparr>,
         Inl (TransportError ''timeout'')])"
  by (simp add: details_eval)

lemma start_good:
  "fst (fetchStreamDetails_start (env_ex 0 ''/none'') details_ex world0)
     = (Inr ''sheet'',
        [Inr \<lparr>z_id = 1, z_downloadSize = 1024, z_downloadSizeStr = ''1 KB''\<rparr>,
         Inr \<lparr>z_id = 2, z_downloadSize = 1024, z_downloadSizeStr = ''1 KB''\<rparr>])"
  by (simp add: details_eval)

theorem fetchStreamDetails_atomic_witness:
  "fst (fetchStreamDetails_start (env_ex 0 ''/v/720.mp4'') details_ex world0)
     = (Inr ''sheet'',
        [Inr \<lparr>z_id = 1, z_downloadSize = 1024, z_downloadSizeStr = ''1 KB''\<rparr>,
         Inl (TransportError ''timeout'')])
   \<and> rejections (fst (fetchStreamDetails_start (env_ex 0 ''/v/720.mp4'') details_ex world0))
       = {TransportError ''timeout''}
   \<and> fst (fetchStreamDetails_body (env_ex 0 ''/v/720.mp4'') details_ex world0)
       = Inl (TransportError ''timeout'')
   \<and> rejections (fst (fetchStreamDetails_start (env_ex 0 ''/none'') details_ex world0)) = {}
   \<and> fst (fetchStreamDetails_body (env_ex 0 ''/none'') details_ex world0)
       = Inr \<lparr>thumbnails = ''sheet'',
              sizes = [\<lparr>z_id = 1, z_downloadSize = 1024, z_downloadSizeStr = ''1 KB''\<rparr>,
                       \<lparr>z_id = 2, z_downloadSize = 1024, z_downloadSizeStr = ''1 KB''\<rparr>]\<rparr>"
proof -
  let ?bad = "fetchStreamDetails_start (env_ex 0 ''/v/720.mp4'') details_ex world0"
  let ?good = "fetchStreamDetails_start (env_ex 0 ''/none'') details_ex world0"
  have rb: "rejections (fst ?bad) = {TransportError ''timeout''}"
    by (auto simp: start_bad rejections_def)
  have rg: "rejections (fst ?good) = {}"
    by (auto simp: start_good rejections_def)
  note th = fetchStreamDetails_atomic [THEN conjunct1, rule_format]
  from th [of "env_ex 0 ''/v/720.mp4''" details_ex world0 "fst ?bad" "snd ?bad", THEN conjunct2]
    rb
  have b: "fst (fetchStreamDetails_body (env_ex 0 ''/v/720.mp4'') details_ex world0)
       = Inl (TransportError ''timeout'')"
    by auto
  from th [of "env_ex 0 ''/none''" details_ex world0 "fst ?good" "snd ?good", THEN conjunct1]
    rg
  obtain d where d: "fetchStreamDetails_body (env_ex 0 ''/none'') details_ex world0
                       = (Inr d, snd ?good)"
    "fst (fst ?good) = Inr (thumbnails d)" "snd (fst ?good) = map Inr (sizes d)"
    by auto
  from d(2,3) have "thumbnails d = ''sheet''"
    "sizes d = [\<lparr>z_id = 1, z_downloadSize = 1024, z_downloadSizeStr = ''1 KB''\<rparr>,
                \<lparr>z_id = 2, z_downloadSize = 1024, z_downloadSizeStr = ''1 KB''\<rparr>]"
    by (auto simp: start_good map_eq_Cons_conv)
  then have "d = \<lparr>thumbnails = ''sheet'',
              sizes = [\<lparr>z_id = 1, z_downloadSize = 1024, z_downloadSizeStr = ''1 KB''\<rparr>,
                       \<lparr>z_id = 2, z_downloadSize = 1024, z_downloadSizeStr = ''1 KB''\<rparr>]\<rparr>"
    by (cases d) simp
  with d(1) have g: "fst (fetchStreamDetails_body (env_ex 0 ''/none'') details_ex world0)
       = Inr \<lparr>thumbnails = ''sheet'',
              sizes = [\<lparr>z_id = 1, z_downloadSize = 1024, z_downloadSizeStr = ''1 KB''\<rparr>,
                       \<lparr>z_id = 2, z_downloadSize = 1024, z_downloadSizeStr = ''1 KB''\<rparr>]\<rparr>"
    by simp
  from start_bad rb b rg g show ?thesis by simp
qed

end
